theory Spec2Isabelle
  imports Complex_Main "HOL-Library.Word"
begin

section \<open>JavaScript values at the RPC and JSON boundaries\<close>

text \<open>
  The API routes read loosely typed values: decoded contract tuples cast to
  \<^verbatim>\<open>readonly any[]\<close> and JSON request bodies. A value is one of the scalars below.
  \<open>JNumber\<close> carries the integer-valued numbers only; a \<open>string\<close> is a list of
  characters below 256 (the code units of ASCII and Latin-1 text). Arithmetic on
  \<^verbatim>\<open>number\<close> is modelled exactly (on \<open>int\<close> and \<open>rat\<close>); the rounding of IEEE doubles
  is not part of the model.
\<close>

datatype jsval =
    JUndefined
  | JNull
  | JBool bool
  | JBigInt int
  | JNumber int
  | JString string

text \<open>A thrown value: an \<^verbatim>\<open>Error\<close> object with its name and message, or anything else.\<close>

datatype thrown =
    ErrorObj (errorName: string) (errorMessage: string)
  | OtherThrown

text \<open>\<^verbatim>\<open>error instanceof Error ? error.message : "Unknown error"\<close>\<close>

fun messageOf :: "thrown \<Rightarrow> string" where
  "messageOf (ErrorObj n m) = m"
| "messageOf OtherThrown = ''Unknown error''"

text \<open>\<^verbatim>\<open>Boolean(v)\<close>, and the truthiness that \<^verbatim>\<open>!v\<close> and \<^verbatim>\<open>v && ...\<close> test.\<close>

fun truthy :: "jsval \<Rightarrow> bool" where
  "truthy JUndefined = False"
| "truthy JNull = False"
| "truthy (JBool b) = b"
| "truthy (JBigInt n) = (n \<noteq> 0)"
| "truthy (JNumber n) = (n \<noteq> 0)"
| "truthy (JString s) = (s \<noteq> [])"

text \<open>\<^verbatim>\<open>v ?? d\<close>\<close>

fun nullish :: "jsval \<Rightarrow> jsval \<Rightarrow> jsval" where
  "nullish JUndefined d = d"
| "nullish JNull d = d"
| "nullish v d = v"

text \<open>\<^verbatim>\<open>t[i]\<close> on a decoded tuple: \<^verbatim>\<open>undefined\<close> past the end.\<close>

definition tupleAt :: "jsval list \<Rightarrow> nat \<Rightarrow> jsval" where
  "tupleAt t i = (if i < length t then t ! i else JUndefined)"

subsection \<open>Decimal strings\<close>

fun nat_toString :: "nat \<Rightarrow> string" where
  "nat_toString n =
     (if n < 10 then [char_of (48 + n)]
      else nat_toString (n div 10) @ [char_of (48 + n mod 10)])"

declare nat_toString.simps [simp del]

text \<open>\<^verbatim>\<open>n.toString()\<close> of a bigint, and of an integer-valued number below \<open>10^21\<close>
  (from there on a number prints in exponent form, which is not modelled).\<close>

definition int_toString :: "int \<Rightarrow> string" where
  "int_toString n = (if n < 0 then CHR ''-'' # nat_toString (nat (- n)) else nat_toString (nat n))"

text \<open>\<^verbatim>\<open>String(v)\<close>\<close>

fun js_String :: "jsval \<Rightarrow> string" where
  "js_String JUndefined = ''undefined''"
| "js_String JNull = ''null''"
| "js_String (JBool b) = (if b then ''true'' else ''false'')"
| "js_String (JBigInt n) = int_toString n"
| "js_String (JNumber n) = int_toString n"
| "js_String (JString s) = s"

text \<open>\<^verbatim>\<open>v.toString()\<close>: as \<^verbatim>\<open>String(v)\<close>, but a TypeError on \<^verbatim>\<open>undefined\<close> and \<^verbatim>\<open>null\<close>.\<close>

fun js_toString :: "jsval \<Rightarrow> thrown + string" where
  "js_toString JUndefined = Inl (ErrorObj ''TypeError'' ''Cannot read properties of undefined'')"
| "js_toString JNull = Inl (ErrorObj ''TypeError'' ''Cannot read properties of null'')"
| "js_toString v = Inr (js_String v)"

subsection \<open>Parsing integers\<close>

text \<open>White space and line terminators, among the characters below 256.\<close>

definition isWhiteSpace :: "char \<Rightarrow> bool" where
  "isWhiteSpace c = (of_char c \<in> {9, 10, 11, 12, 13, 32, 160 :: nat})"

text \<open>The value of a digit in a radix up to 16, if it is one.\<close>

definition digitValue :: "nat \<Rightarrow> char \<Rightarrow> nat option" where
  "digitValue radix c =
     (let k = (of_char c :: nat);
          v = (if 48 \<le> k \<and> k \<le> 57 then Some (k - 48)
               else if 97 \<le> k \<and> k \<le> 102 then Some (k - 87)
               else if 65 \<le> k \<and> k \<le> 70 then Some (k - 55)
               else None)
      in case v of None \<Rightarrow> None | Some d \<Rightarrow> if d < radix then Some d else None)"

definition isDigit :: "nat \<Rightarrow> char \<Rightarrow> bool" where
  "isDigit radix c = (digitValue radix c \<noteq> None)"

definition digitsValue :: "nat \<Rightarrow> string \<Rightarrow> nat" where
  "digitsValue radix ds = foldl (\<lambda>acc c. acc * radix + (case digitValue radix c of None \<Rightarrow> 0 | Some d \<Rightarrow> d)) 0 ds"

definition trimString :: "string \<Rightarrow> string" where
  "trimString s = rev (dropWhile isWhiteSpace (rev (dropWhile isWhiteSpace s)))"

definition allDigits :: "nat \<Rightarrow> string \<Rightarrow> thrown + int" where
  "allDigits radix ds =
     (if ds \<noteq> [] \<and> list_all (isDigit radix) ds then Inr (int (digitsValue radix ds))
      else Inl (ErrorObj ''SyntaxError'' ''Cannot convert string to a BigInt''))"

text \<open>
  \<^verbatim>\<open>BigInt(s)\<close> of a string: white space trimmed, the empty string is \<open>0n\<close>, a radix
  prefix takes no sign, a decimal literal takes one, anything else is a SyntaxError.
\<close>

fun stringToBigInt' :: "string \<Rightarrow> thrown + int" where
  "stringToBigInt' [] = Inr 0"
| "stringToBigInt' (c # d # rest) =
     (if c = CHR ''0'' \<and> (d = CHR ''x'' \<or> d = CHR ''X'') then allDigits 16 rest
      else if c = CHR ''0'' \<and> (d = CHR ''o'' \<or> d = CHR ''O'') then allDigits 8 rest
      else if c = CHR ''0'' \<and> (d = CHR ''b'' \<or> d = CHR ''B'') then allDigits 2 rest
      else if c = CHR ''-'' then map_sum id uminus (allDigits 10 (d # rest))
      else if c = CHR ''+'' then allDigits 10 (d # rest)
      else allDigits 10 (c # d # rest))"
| "stringToBigInt' [c] = allDigits 10 [c]"

definition stringToBigInt :: "string \<Rightarrow> thrown + int" where
  "stringToBigInt s = stringToBigInt' (trimString s)"

text \<open>\<^verbatim>\<open>BigInt(v)\<close>\<close>

fun js_BigInt :: "jsval \<Rightarrow> thrown + int" where
  "js_BigInt JUndefined = Inl (ErrorObj ''TypeError'' ''Cannot convert undefined to a BigInt'')"
| "js_BigInt JNull = Inl (ErrorObj ''TypeError'' ''Cannot convert null to a BigInt'')"
| "js_BigInt (JBool b) = Inr (if b then 1 else 0)"
| "js_BigInt (JBigInt n) = Inr n"
| "js_BigInt (JNumber n) = Inr n"
| "js_BigInt (JString s) = stringToBigInt s"

text \<open>
  \<^verbatim>\<open>parseInt(s)\<close>: leading white space skipped, an optional sign, an optional
  \<^verbatim>\<open>0x\<close> prefix, then the longest run of digits; \<open>None\<close> is \<^verbatim>\<open>NaN\<close>. The result is the
  integer the digits denote, which is what \<^verbatim>\<open>parseInt\<close> returns below \<open>2^53\<close>; above, the
  double it returns is rounded, and that is not modelled.
\<close>

definition parseDigits :: "nat \<Rightarrow> string \<Rightarrow> int option" where
  "parseDigits radix s =
     (let ds = takeWhile (isDigit radix) s
      in if ds = [] then None else Some (int (digitsValue radix ds)))"

fun parseUnsigned :: "string \<Rightarrow> int option" where
  "parseUnsigned (c # d # rest) =
     (if c = CHR ''0'' \<and> (d = CHR ''x'' \<or> d = CHR ''X'') then parseDigits 16 rest
      else parseDigits 10 (c # d # rest))"
| "parseUnsigned s = parseDigits 10 s"

fun parseSigned :: "string \<Rightarrow> int option" where
  "parseSigned [] = None"
| "parseSigned (c # rest) =
     (if c = CHR ''-'' then map_option uminus (parseUnsigned rest)
      else if c = CHR ''+'' then parseUnsigned rest
      else parseUnsigned (c # rest))"

definition js_parseInt :: "string \<Rightarrow> int option" where
  "js_parseInt s = parseSigned (dropWhile isWhiteSpace s)"

text \<open>\<^verbatim>\<open>s.toLowerCase()\<close>: the capital letters below 256 are A to Z and the accented
  capitals from 192 to 222 (215, the multiplication sign, is not a letter).\<close>

definition lowerChar :: "char \<Rightarrow> char" where
  "lowerChar c =
     (let k = (of_char c :: nat)
      in if (65 \<le> k \<and> k \<le> 90) \<or> (192 \<le> k \<and> k \<le> 222 \<and> k \<noteq> 215) then char_of (k + 32) else c)"

definition toLowerCase :: "string \<Rightarrow> string" where
  "toLowerCase s = map lowerChar s"

section \<open>The contract as the routes read it\<close>

text \<open>
  One snapshot of the deployed contract behind the JSON-RPC client. A read either
  rejects (\<open>Inl\<close>) or resolves; a resolved tuple read is \<open>Some\<close> decoded tuple, or
  \<open>None\<close> for a falsy result. Every read is recorded in a trace of calls.
\<close>

text \<open>The decoded arguments of a log: an address string, or \<open>None\<close> for \<^verbatim>\<open>undefined\<close>.
  A log whose \<^verbatim>\<open>args\<close> are missing is \<open>None\<close>.\<close>

record TradeExecutedArgs =
  buyer :: "string option"
  seller :: "string option"

record FreeTokensClaimedArgs =
  user :: "string option"

record chain =
  marketCount :: "thrown + nat"
  getMarketInfo :: "int \<Rightarrow> thrown + jsval list option"
  getMarketFinancials :: "int \<Rightarrow> thrown + jsval list option"
  getFreeMarketInfo :: "int \<Rightarrow> thrown + jsval list option"
  getLPInfo :: "int \<Rightarrow> string \<Rightarrow> thrown + jsval list option"
  getLogsTradeExecuted :: "int \<Rightarrow> thrown + TradeExecutedArgs option list"
  getLogsFreeTokensClaimed :: "int \<Rightarrow> thrown + FreeTokensClaimedArgs option list"
  getEligibleWinners :: "int \<Rightarrow> string list \<Rightarrow> thrown + (string list \<times> int list)"

datatype rpc_call =
    CallMarketCount
  | CallGetMarketInfo int
  | CallGetMarketFinancials int
  | CallGetFreeMarketInfo int
  | CallGetLPInfo int string
  | CallGetLogsTradeExecuted int
  | CallGetLogsFreeTokensClaimed int
  | CallGetEligibleWinners int "string list"

section \<open>HTTP responses\<close>

text \<open>
  \<^verbatim>\<open>NextResponse.json(x)\<close> answers 200 with \<open>x\<close>; \<^verbatim>\<open>NextResponse.json({error}, {status})\<close>
  answers the given status with an error message.
\<close>

datatype 'a body = ErrorBody string | Payload 'a

record 'a response =
  status :: nat
  body :: "'a body"

definition ok :: "'a \<Rightarrow> 'a response" where
  "ok x = \<lparr>status = 200, body = Payload x\<rparr>"

definition failure :: "nat \<Rightarrow> string \<Rightarrow> 'a response" where
  "failure code msg = \<lparr>status = code, body = ErrorBody msg\<rparr>"

section \<open>Admin-withdrawal scanner\<close>

datatype withdrawalType = AdminLiquidity | PrizePool | LpRewards

text \<open>\<^verbatim>\<open>AdminWithdrawal\<close>, with the amount a bigint; serialized, the amount is a string.\<close>

record 'a Withdrawal =
  marketId :: nat
  amount :: 'a
  wtype :: withdrawalType
  description :: string

type_synonym AdminWithdrawal = "int Withdrawal"

record MarketInfo =
  question :: string
  endTime :: int
  optionCount :: int
  resolved :: bool
  disputed :: bool
  invalidated :: bool
  winningOptionId :: int
  creator :: string

text \<open>
  The defensive normalisation of the \<^verbatim>\<open>getMarketInfo\<close> tuple. The three \<^verbatim>\<open>BigInt(...)\<close>
  conversions can throw; \<^verbatim>\<open>String\<close>, \<^verbatim>\<open>Number\<close> and \<^verbatim>\<open>Boolean\<close> cannot (the unused
  \<^verbatim>\<open>description\<close>, \<^verbatim>\<open>category\<close> and \<^verbatim>\<open>marketType\<close> are left out).
\<close>

definition normalizeMarketInfo :: "jsval list \<Rightarrow> thrown + MarketInfo" where
  "normalizeMarketInfo mi =
     (case js_BigInt (nullish (tupleAt mi 2) (JBigInt 0)) of
        Inl e \<Rightarrow> Inl e
      | Inr et \<Rightarrow>
     (case js_BigInt (nullish (tupleAt mi 4) (JBigInt 0)) of
        Inl e \<Rightarrow> Inl e
      | Inr oc \<Rightarrow>
     (case js_BigInt (nullish (tupleAt mi 9) (JBigInt 0)) of
        Inl e \<Rightarrow> Inl e
      | Inr wo \<Rightarrow>
          Inr \<lparr>question = js_String (nullish (tupleAt mi 0) (JString [])),
               endTime = et,
               optionCount = oc,
               resolved = truthy (tupleAt mi 5),
               disputed = truthy (tupleAt mi 6),
               invalidated = truthy (tupleAt mi 8),
               winningOptionId = wo,
               creator = js_String (nullish (tupleAt mi 10) (JString []))\<rparr>)))"

text \<open>The description template: a prefix, the first 30 code units of the question in
  double quotes, and three dots.\<close>

definition describe :: "string \<Rightarrow> string \<Rightarrow> string" where
  "describe prefix q = prefix @ [CHR 0x22] @ take 30 q @ ''...'' @ [CHR 0x22]"

text \<open>1. Admin liquidity: \<^verbatim>\<open>getMarketFinancials\<close> inside its own try/catch.\<close>

definition adminLiquidityCheck :: "chain \<Rightarrow> nat \<Rightarrow> string \<Rightarrow> rpc_call list \<times> AdminWithdrawal list" where
  "adminLiquidityCheck c m q =
     ([CallGetMarketFinancials (int m)],
      (case getMarketFinancials c (int m) of
         Inl e \<Rightarrow> []
       | Inr None \<Rightarrow> []
       | Inr (Some mf) \<Rightarrow>
           (case js_BigInt (nullish (tupleAt mf 0) (JBigInt 0)) of
              Inl e \<Rightarrow> []
            | Inr adminInitialLiquidity \<Rightarrow>
                (let adminLiquidityClaimed =
                       truthy (nullish (nullish (tupleAt mf 4) (tupleAt mf 3)) (JBool False))
                 in if \<not> adminLiquidityClaimed \<and> adminInitialLiquidity > 0
                    then [\<lparr>marketId = m, amount = adminInitialLiquidity, wtype = AdminLiquidity,
                           description = describe ''Admin liquidity for market '' q\<rparr>]
                    else []))))"

text \<open>A free market is one whose \<^verbatim>\<open>getFreeMarketInfo\<close> read resolves to a truthy value.\<close>

definition checkIfFreeMarket :: "chain \<Rightarrow> nat \<Rightarrow> rpc_call list \<times> bool" where
  "checkIfFreeMarket c m =
     ([CallGetFreeMarketInfo (int m)],
      (case getFreeMarketInfo c (int m) of
         Inl e \<Rightarrow> False
       | Inr None \<Rightarrow> False
       | Inr (Some fm) \<Rightarrow> True))"

text \<open>The arithmetic of \<^verbatim>\<open>getUnusedPrizePool\<close> on the decoded tuple; a throwing
  conversion is caught by the function's own try/catch, which answers \<open>0n\<close>.\<close>

definition unusedPrizePoolOf :: "jsval list \<Rightarrow> int" where
  "unusedPrizePoolOf fm =
     (case js_BigInt (nullish (tupleAt fm 0) (JBigInt 0)) of
        Inl e \<Rightarrow> 0
      | Inr maxParticipants \<Rightarrow>
     (case js_BigInt (nullish (tupleAt fm 1) (JBigInt 0)) of
        Inl e \<Rightarrow> 0
      | Inr tokensPerParticipant \<Rightarrow>
     (case js_BigInt (nullish (tupleAt fm 2) (JBigInt 0)) of
        Inl e \<Rightarrow> 0
      | Inr currentParticipants \<Rightarrow>
     (case js_BigInt (nullish (tupleAt fm 3) (JBigInt 0)) of
        Inl e \<Rightarrow> 0
      | Inr totalPrizePool \<Rightarrow>
          (let prizePoolWithdrawn = truthy (tupleAt fm 4)
           in if prizePoolWithdrawn then 0
              else (let maxPossiblePrizePool = maxParticipants * tokensPerParticipant;
                        actualPrizePool = currentParticipants * tokensPerParticipant;
                        unusedPrizePool = maxPossiblePrizePool - actualPrizePool
                    in if unusedPrizePool > 0 then unusedPrizePool else 0))))))"

definition getUnusedPrizePool :: "chain \<Rightarrow> nat \<Rightarrow> rpc_call list \<times> int" where
  "getUnusedPrizePool c m =
     ([CallGetFreeMarketInfo (int m)],
      (case getFreeMarketInfo c (int m) of
         Inl e \<Rightarrow> 0
       | Inr None \<Rightarrow> 0
       | Inr (Some fm) \<Rightarrow> unusedPrizePoolOf fm))"

text \<open>2. Unused prize pool, for resolved free markets only.\<close>

definition prizePoolCheck :: "chain \<Rightarrow> nat \<Rightarrow> MarketInfo \<Rightarrow> rpc_call list \<times> AdminWithdrawal list" where
  "prizePoolCheck c m info =
     (let (t1, isFreeMarket) = checkIfFreeMarket c m
      in if isFreeMarket \<and> resolved info
         then (let (t2, unusedPrizePool) = getUnusedPrizePool c m
               in (t1 @ t2,
                   if unusedPrizePool > 0
                   then [\<lparr>marketId = m, amount = unusedPrizePool, wtype = PrizePool,
                          description = describe ''Unused prize pool for free market '' (question info)\<rparr>]
                   else []))
         else (t1, []))"

text \<open>3. LP rewards, for any user: \<^verbatim>\<open>getLPInfo\<close> inside its own try/catch.\<close>

definition lpRewardsCheck :: "chain \<Rightarrow> nat \<Rightarrow> string \<Rightarrow> string \<Rightarrow> rpc_call list \<times> AdminWithdrawal list" where
  "lpRewardsCheck c m u q =
     ([CallGetLPInfo (int m) u],
      (case getLPInfo c (int m) u of
         Inl e \<Rightarrow> []
       | Inr None \<Rightarrow> []
       | Inr (Some li) \<Rightarrow>
           (case js_BigInt (nullish (tupleAt li 0) (JBigInt 0)) of
              Inl e \<Rightarrow> []
            | Inr contribution \<Rightarrow>
           (case js_BigInt (nullish (nullish (tupleAt li 2) (tupleAt li 3)) (JBigInt 0)) of
              Inl e \<Rightarrow> []
            | Inr estimatedRewards \<Rightarrow>
                (let rewardsClaimed = truthy (tupleAt li 1)
                 in if \<not> rewardsClaimed \<and> estimatedRewards > 0
                    then [\<lparr>marketId = m, amount = estimatedRewards, wtype = LpRewards,
                           description = describe ''LP rewards for market '' q\<rparr>]
                    else [])))))"

text \<open>
  One iteration of the loop of \<^verbatim>\<open>checkMarketBatchForAdmin\<close>. Whatever is thrown before the
  three checks (a rejected \<^verbatim>\<open>getMarketInfo\<close>, a throwing \<^verbatim>\<open>BigInt\<close>, \<^verbatim>\<open>toLowerCase\<close> on a user
  address that is not a string) is caught by the outer catch, which logs and goes on to
  the next market.
\<close>

definition checkMarket :: "chain \<Rightarrow> jsval \<Rightarrow> nat \<Rightarrow> rpc_call list \<times> AdminWithdrawal list" where
  "checkMarket c userAddress m =
     (case getMarketInfo c (int m) of
        Inl e \<Rightarrow> ([CallGetMarketInfo (int m)], [])
      | Inr None \<Rightarrow> ([CallGetMarketInfo (int m)], [])
      | Inr (Some mi) \<Rightarrow>
          (case normalizeMarketInfo mi of
             Inl e \<Rightarrow> ([CallGetMarketInfo (int m)], [])
           | Inr info \<Rightarrow>
               (case userAddress of
                  JString u \<Rightarrow>
                    (let isCreator = (toLowerCase (creator info) = toLowerCase u);
                         (t1, w1) = (if isCreator then adminLiquidityCheck c m (question info) else ([], []));
                         (t2, w2) = (if isCreator then prizePoolCheck c m info else ([], []));
                         (t3, w3) = lpRewardsCheck c m u (question info)
                     in (CallGetMarketInfo (int m) # t1 @ t2 @ t3, w1 @ w2 @ w3))
                | _ \<Rightarrow> ([CallGetMarketInfo (int m)], []))))"

text \<open>The loop over the market ids of one batch, from \<open>m\<close> up to \<open>endId\<close>.\<close>

function checkMarketBatchForAdmin ::
  "chain \<Rightarrow> jsval \<Rightarrow> nat \<Rightarrow> nat \<Rightarrow> rpc_call list \<times> AdminWithdrawal list \<Rightarrow> rpc_call list \<times> AdminWithdrawal list" where
  "checkMarketBatchForAdmin c u m endId acc =
     (if m < endId
      then checkMarketBatchForAdmin c u (m + 1) endId
             (fst acc @ fst (checkMarket c u m), snd acc @ snd (checkMarket c u m))
      else acc)"
  by pat_completeness auto
termination
  by (relation "measure (\<lambda>(c, u, m, endId, acc). endId - m)") auto

declare checkMarketBatchForAdmin.simps [simp del]

text \<open>The loop over the batches of ten, from \<open>startId\<close> up to \<open>maxMarketId\<close>. A batch never
  throws, so the catch around it is never taken.\<close>

definition batchSize :: nat where
  "batchSize = 10"

function scanBatches ::
  "chain \<Rightarrow> jsval \<Rightarrow> nat \<Rightarrow> nat \<Rightarrow> rpc_call list \<times> AdminWithdrawal list \<Rightarrow> rpc_call list \<times> AdminWithdrawal list" where
  "scanBatches c u startId maxMarketId acc =
     (if startId < maxMarketId
      then (let endId = min (startId + batchSize) maxMarketId;
                batchWithdrawals = checkMarketBatchForAdmin c u startId endId ([], [])
            in scanBatches c u (startId + batchSize) maxMarketId
                 (fst acc @ fst batchWithdrawals, snd acc @ snd batchWithdrawals))
      else acc)"
  by pat_completeness auto
termination
  by (relation "measure (\<lambda>(c, u, startId, maxMarketId, acc). maxMarketId - startId)")
     (auto simp: batchSize_def)

declare scanBatches.simps [simp del]

text \<open>
  \<^verbatim>\<open>discoverAdminWithdrawals\<close>: a rejected \<^verbatim>\<open>marketCount\<close> read is caught and answered
  with the empty list. \<^verbatim>\<open>Number(marketCount)\<close> is exact below \<open>2^53\<close>.
\<close>

definition discoverAdminWithdrawals :: "chain \<Rightarrow> jsval \<Rightarrow> rpc_call list \<times> AdminWithdrawal list" where
  "discoverAdminWithdrawals c userAddress =
     (case marketCount c of
        Inl e \<Rightarrow> ([CallMarketCount], [])
      | Inr maxMarketId \<Rightarrow>
          if maxMarketId = 0 then ([CallMarketCount], [])
          else scanBatches c userAddress 0 maxMarketId ([CallMarketCount], []))"

record 'a byType =
  adminLiquidity :: 'a
  prizePool :: 'a
  lpRewards :: 'a

record 'a totals = "'a byType" +
  total :: 'a

record scanPayload =
  withdrawals :: "string Withdrawal list byType"
  totals :: "string totals"
  totalCount :: nat

definition ofType :: "withdrawalType \<Rightarrow> AdminWithdrawal list \<Rightarrow> AdminWithdrawal list" where
  "ofType t ws = filter (\<lambda>w. wtype w = t) ws"

definition sumAmounts :: "AdminWithdrawal list \<Rightarrow> int" where
  "sumAmounts ws = foldl (\<lambda>sum w. sum + amount w) 0 ws"

definition serialize :: "AdminWithdrawal \<Rightarrow> string Withdrawal" where
  "serialize w = \<lparr>marketId = marketId w, amount = int_toString (amount w),
                   wtype = wtype w, description = description w\<rparr>"

text \<open>
  The handler of \<^verbatim>\<open>POST /api/admin-auto-discover\<close>. The request is \<open>Inl\<close> when no body
  object can be read (\<^verbatim>\<open>request.json()\<close> rejects, or the destructuring of the body
  throws), and else the value of the body's \<^verbatim>\<open>userAddress\<close> (\<open>JUndefined\<close> when absent).
\<close>

definition scanPOST :: "chain \<Rightarrow> thrown + jsval \<Rightarrow> rpc_call list \<times> scanPayload response" where
  "scanPOST c request =
     (case request of
        Inl e \<Rightarrow> ([], failure 500 (''Failed to auto-discover admin withdrawals: '' @ messageOf e))
      | Inr userAddress \<Rightarrow>
          if \<not> truthy userAddress then ([], failure 400 ''User address is required'')
          else (let (trace, adminWithdrawals) = discoverAdminWithdrawals c userAddress;
                    grouped = \<lparr>adminLiquidity = ofType AdminLiquidity adminWithdrawals,
                               prizePool = ofType PrizePool adminWithdrawals,
                               lpRewards = ofType LpRewards adminWithdrawals\<rparr>
                in (trace,
                    ok \<lparr>withdrawals =
                          \<lparr>adminLiquidity = map serialize (adminLiquidity grouped),
                           prizePool = map serialize (prizePool grouped),
                           lpRewards = map serialize (lpRewards grouped)\<rparr>,
                        totals =
                          \<lparr>adminLiquidity = int_toString (sumAmounts (adminLiquidity grouped)),
                           prizePool = int_toString (sumAmounts (prizePool grouped)),
                           lpRewards = int_toString (sumAmounts (lpRewards grouped)),
                           total = int_toString (sumAmounts adminWithdrawals)\<rparr>,
                        totalCount = length adminWithdrawals\<rparr>)))"

section \<open>Batch-distribution previewer\<close>

record previewPayload =
  recipients :: "string list"
  amounts :: "string option list"
  totalParticipants :: nat
  eligibleCount :: "nat option"
  message :: "string option"

definition zeroAddress :: string where
  "zeroAddress = ''0x0000000000000000000000000000000000000000''"

text \<open>\<^verbatim>\<open>participantSet.add(x)\<close>: a \<^verbatim>\<open>Set\<close> keeps insertion order and no duplicates.\<close>

definition setAdd :: "string list \<Rightarrow> string \<Rightarrow> string list" where
  "setAdd s x = (if x \<in> set s then s else s @ [x])"

text \<open>\<^verbatim>\<open>if (a && a !== "0x0000000000000000000000000000000000000000") participantSet.add(a.toLowerCase())\<close>\<close>

definition addParticipant :: "string list \<Rightarrow> string option \<Rightarrow> string list" where
  "addParticipant s a =
     (case a of
        None \<Rightarrow> s
      | Some x \<Rightarrow> if x \<noteq> [] \<and> x \<noteq> zeroAddress then setAdd s (toLowerCase x) else s)"

definition addTrade :: "string list \<Rightarrow> TradeExecutedArgs option \<Rightarrow> string list" where
  "addTrade s ev =
     (let b = (case ev of None \<Rightarrow> None | Some args \<Rightarrow> buyer args);
          sl = (case ev of None \<Rightarrow> None | Some args \<Rightarrow> seller args)
      in addParticipant (addParticipant s b) sl)"

definition addFreeClaim :: "string list \<Rightarrow> FreeTokensClaimedArgs option \<Rightarrow> string list" where
  "addFreeClaim s ev =
     addParticipant s (case ev of None \<Rightarrow> None | Some args \<Rightarrow> user args)"

text \<open>The two loops over the events, and \<^verbatim>\<open>Array.from(participantSet)\<close>.\<close>

definition participantsOf ::
  "TradeExecutedArgs option list \<Rightarrow> FreeTokensClaimedArgs option list \<Rightarrow> string list" where
  "participantsOf tradeEvents freeTokenEvents =
     foldl addFreeClaim (foldl addTrade [] tradeEvents) freeTokenEvents"

text \<open>
  The odd part of a number: a non-negative integer is a double exactly when its odd part
  is below \<open>2^53\<close> (and it is in range, as every \<^verbatim>\<open>uint256\<close> is).
\<close>

function oddPart :: "nat \<Rightarrow> nat" where
  "oddPart n = (if n = 0 \<or> odd n then n else oddPart (n div 2))"
  by pat_completeness auto
termination
  by (relation "measure (\<lambda>n. n)") auto

declare oddPart.simps [simp del]

text \<open>
  \<^verbatim>\<open>(Number(amount) / 1e18).toString()\<close>, where the double arithmetic is exact: the
  amount is a double, and a whole multiple of \<open>10^18\<close> whose quotient is below \<open>2^53\<close>, so
  that \<^verbatim>\<open>toString\<close> prints exactly its digits. Elsewhere the conversion, the division or
  the printing rounds, and the result is \<open>None\<close>: not computed by this model.
\<close>

definition formatAmount :: "int \<Rightarrow> string option" where
  "formatAmount a =
     (if 0 \<le> a \<and> oddPart (nat a) < 2 ^ 53 \<and> a mod 10 ^ 18 = 0 \<and> a div 10 ^ 18 < 2 ^ 53
      then Some (int_toString (a div 10 ^ 18))
      else None)"

definition previewFailure :: "thrown \<Rightarrow> previewPayload response" where
  "previewFailure e = failure 500 (''Failed to auto-preview distribution: '' @ messageOf e)"

definition emptyPreview :: "nat option \<Rightarrow> string \<Rightarrow> previewPayload response" where
  "emptyPreview ec msg =
     ok \<lparr>recipients = [], amounts = [], totalParticipants = 0, eligibleCount = ec,
         message = Some msg\<rparr>"

text \<open>The handler from the \<^verbatim>\<open>getMarketInfo\<close> read on, for a market id that parsed.\<close>

definition previewMarket :: "chain \<Rightarrow> int \<Rightarrow> rpc_call list \<times> previewPayload response" where
  "previewMarket c marketIdNum =
     (case getMarketInfo c marketIdNum of
        Inl e \<Rightarrow> ([CallGetMarketInfo marketIdNum], previewFailure e)
      | Inr None \<Rightarrow>
          ([CallGetMarketInfo marketIdNum],
           previewFailure (ErrorObj ''TypeError'' ''marketInfoArray is not iterable''))
      | Inr (Some marketInfoArray) \<Rightarrow>
          if \<not> truthy (tupleAt marketInfoArray 5)
          then ([CallGetMarketInfo marketIdNum],
                emptyPreview (Some 0) ''Market is not resolved yet. Cannot distribute winnings.'')
          else if truthy (tupleAt marketInfoArray 6)
          then ([CallGetMarketInfo marketIdNum],
                emptyPreview (Some 0) ''Market is disputed. Cannot distribute winnings.'')
          else
            (case getLogsTradeExecuted c marketIdNum of
               Inl e \<Rightarrow>
                 ([CallGetMarketInfo marketIdNum, CallGetLogsTradeExecuted marketIdNum],
                  previewFailure e)
             | Inr tradeEvents \<Rightarrow>
            (case getLogsFreeTokensClaimed c marketIdNum of
               Inl e \<Rightarrow>
                 ([CallGetMarketInfo marketIdNum, CallGetLogsTradeExecuted marketIdNum,
                   CallGetLogsFreeTokensClaimed marketIdNum],
                  previewFailure e)
             | Inr freeTokenEvents \<Rightarrow>
                 if tradeEvents = [] \<and> freeTokenEvents = []
                 then ([CallGetMarketInfo marketIdNum, CallGetLogsTradeExecuted marketIdNum,
                        CallGetLogsFreeTokensClaimed marketIdNum],
                       emptyPreview (Some 0)
                         (''No trade or free token events found for this market. '' @
                          ''This could mean the market has no participants yet.''))
                 else
                   (let participants = participantsOf tradeEvents freeTokenEvents
                    in if participants = []
                       then ([CallGetMarketInfo marketIdNum, CallGetLogsTradeExecuted marketIdNum,
                              CallGetLogsFreeTokensClaimed marketIdNum],
                             emptyPreview None ''No participants found for this market'')
                       else
                         (case getEligibleWinners c marketIdNum participants of
                            Inl e \<Rightarrow>
                              ([CallGetMarketInfo marketIdNum, CallGetLogsTradeExecuted marketIdNum,
                                CallGetLogsFreeTokensClaimed marketIdNum,
                                CallGetEligibleWinners marketIdNum participants],
                               previewFailure e)
                          | Inr (rs, as) \<Rightarrow>
                              ([CallGetMarketInfo marketIdNum, CallGetLogsTradeExecuted marketIdNum,
                                CallGetLogsFreeTokensClaimed marketIdNum,
                                CallGetEligibleWinners marketIdNum participants],
                               ok \<lparr>recipients = rs,
                                   amounts = map formatAmount as,
                                   totalParticipants = length participants,
                                   eligibleCount = Some (length rs),
                                   message = None\<rparr>))))))"

text \<open>
  The handler of \<^verbatim>\<open>POST /api/auto-preview-batch-distribution\<close>. The request is \<open>Inl\<close>
  when no body object can be read, and else the value of the body's \<^verbatim>\<open>marketId\<close>
  (\<open>JUndefined\<close> when absent).
\<close>

definition previewPOST :: "chain \<Rightarrow> thrown + jsval \<Rightarrow> rpc_call list \<times> previewPayload response" where
  "previewPOST c request =
     (case request of
        Inl e \<Rightarrow> ([], previewFailure e)
      | Inr mid \<Rightarrow>
          if \<not> truthy mid then ([], failure 400 ''Market ID is required'')
          else
            (case js_toString mid of
               Inl e \<Rightarrow> ([], previewFailure e)
             | Inr s \<Rightarrow>
                 (case js_parseInt s of
                    None \<Rightarrow> ([], failure 400 ''Invalid market ID'')
                  | Some marketIdNum \<Rightarrow>
                      if marketIdNum < 0 then ([], failure 400 ''Invalid market ID'')
                      else previewMarket c marketIdNum)))"

section \<open>Analytics aggregator\<close>

text \<open>
  A \<^verbatim>\<open>number\<close> is an exact rational here. A calendar day (the date part of
  \<^verbatim>\<open>toISOString()\<close>) is the number of the UTC day since the epoch, and an ISO time
  stamp is its millisecond count: both determine the strings and are determined by them.
\<close>

datatype eventType = SharesPurchased | MarketCreated | MarketResolved

text \<open>\<^verbatim>\<open>MarketEvent\<close> (fields prefixed \<open>ev_\<close>)\<close>

record MarketEvent =
  ev_blockNumber :: nat
  ev_transactionHash :: string
  ev_timestamp :: int
  ev_eventType :: eventType
  ev_isOptionA :: "bool option"
  ev_amount :: "rat option"
  ev_buyer :: "string option"

record SharesPurchasedArgs =
  arg_buyer :: string
  arg_isOptionA :: bool
  arg_amount :: nat

record SharesPurchasedLog =
  log_blockNumber :: nat
  log_transactionHash :: string
  log_args :: "SharesPurchasedArgs option"

text \<open>The reads of the analytics route: the \<^verbatim>\<open>SharesPurchased\<close> logs of a market and
  the time stamp (in seconds) of a block.\<close>

record logChain =
  getLogsSharesPurchased :: "int \<Rightarrow> thrown + SharesPurchasedLog list"
  getBlockTimestamp :: "nat \<Rightarrow> thrown + nat"

text \<open>The loop over the logs: one \<^verbatim>\<open>getBlock\<close> per log, an event per log with \<^verbatim>\<open>args\<close>.
  \<^verbatim>\<open>Number(amount)\<close> is the amount itself below \<open>2^53\<close>; its rounding above is not modelled.\<close>

fun eventsOfLogs :: "logChain \<Rightarrow> SharesPurchasedLog list \<Rightarrow> MarketEvent list \<Rightarrow> thrown + MarketEvent list" where
  "eventsOfLogs c [] events = Inr events"
| "eventsOfLogs c (l # ls) events =
     (case getBlockTimestamp c (log_blockNumber l) of
        Inl e \<Rightarrow> Inl e
      | Inr blockTimestamp \<Rightarrow>
          (case log_args l of
             None \<Rightarrow> eventsOfLogs c ls events
           | Some args \<Rightarrow>
               eventsOfLogs c ls
                 (events @
                  [\<lparr>ev_blockNumber = log_blockNumber l,
                    ev_transactionHash = log_transactionHash l,
                    ev_timestamp = int blockTimestamp * 1000,
                    ev_eventType = SharesPurchased,
                    ev_isOptionA = Some (arg_isOptionA args),
                    ev_amount = Some (of_nat (arg_amount args)),
                    ev_buyer = Some (arg_buyer args)\<rparr>])))"

text \<open>\<^verbatim>\<open>getMarketEvents\<close>: anything thrown (by \<^verbatim>\<open>BigInt(marketId)\<close> too) is caught and
  answered with no events; the events are sorted by time stamp, stably.\<close>

definition getMarketEvents :: "logChain \<Rightarrow> string \<Rightarrow> MarketEvent list" where
  "getMarketEvents c mid =
     (case stringToBigInt mid of
        Inl e \<Rightarrow> []
      | Inr n \<Rightarrow>
          (case getLogsSharesPurchased c n of
             Inl e \<Rightarrow> []
           | Inr shareLogs \<Rightarrow>
               (case eventsOfLogs c shareLogs [] of
                  Inl e \<Rightarrow> []
                | Inr events \<Rightarrow> sort_key ev_timestamp events)))"

text \<open>The entry of \<^verbatim>\<open>dailyData\<close> for one day (fields prefixed \<open>d_\<close>).\<close>

record DailyData =
  d_optionAVolume :: rat
  d_optionBVolume :: rat
  d_totalVolume :: rat
  d_trades :: int
  d_timestamp :: int

record VolumeHistoryData =
  date :: int
  timestamp :: int
  volume :: rat
  trades :: int

record PriceHistoryData = VolumeHistoryData +
  optionA :: rat
  optionB :: rat

record MarketAnalytics =
  priceHistory :: "PriceHistoryData list"
  volumeHistory :: "VolumeHistoryData list"
  totalVolume :: rat
  totalTrades :: int
  priceChange24h :: rat
  volumeChange24h :: rat
  lastUpdated :: int

text \<open>\<^verbatim>\<open>new Date(t).toISOString().split("T")[0]\<close>: a RangeError outside the range of
  \<^verbatim>\<open>Date\<close>.\<close>

definition dayOf :: "int \<Rightarrow> thrown + int" where
  "dayOf t =
     (if \<bar>t\<bar> \<le> 8640000000000000 then Inr (t div 86400000)
      else Inl (ErrorObj ''RangeError'' ''Invalid time value''))"

text \<open>\<^verbatim>\<open>Map.set\<close>: an existing key keeps its place, a new key goes last.\<close>

definition mapSet :: "('k \<times> 'v) list \<Rightarrow> 'k \<Rightarrow> 'v \<Rightarrow> ('k \<times> 'v) list" where
  "mapSet m k v =
     (if k \<in> fst ` set m then map (\<lambda>kv. if fst kv = k then (k, v) else kv) m
      else m @ [(k, v)])"

text \<open>\<^verbatim>\<open>Math.round(x * 1000) / 1000\<close>; \<^verbatim>\<open>Math.round\<close> rounds a half upwards.\<close>

definition round3 :: "rat \<Rightarrow> rat" where
  "round3 x = of_int \<lfloor>x * 1000 + 1 / 2\<rfloor> / 1000"

text \<open>The body of \<^verbatim>\<open>events.forEach\<close>, on \<^verbatim>\<open>dailyData\<close>, \<^verbatim>\<open>totalVolume\<close> and
  \<^verbatim>\<open>totalTrades\<close>.\<close>

definition addEvent ::
  "(int \<times> DailyData) list \<times> rat \<times> int \<Rightarrow> MarketEvent \<Rightarrow> thrown + (int \<times> DailyData) list \<times> rat \<times> int" where
  "addEvent st event =
     (case st of (dailyData, totalVol, totalTr) \<Rightarrow>
        if ev_eventType event = SharesPurchased
        then (case dayOf (ev_timestamp event) of
                Inl e \<Rightarrow> Inl e
              | Inr day \<Rightarrow>
                  (let existing = (case map_of dailyData day of
                                     Some d \<Rightarrow> d
                                   | None \<Rightarrow> \<lparr>d_optionAVolume = 0, d_optionBVolume = 0,
                                              d_totalVolume = 0, d_trades = 0,
                                              d_timestamp = ev_timestamp event\<rparr>);
                       amt = (case ev_amount event of None \<Rightarrow> 0 | Some a \<Rightarrow> a);
                       existing1 = (if ev_isOptionA event = Some True
                                    then existing\<lparr>d_optionAVolume := d_optionAVolume existing + amt\<rparr>
                                    else existing\<lparr>d_optionBVolume := d_optionBVolume existing + amt\<rparr>);
                       existing2 = existing1\<lparr>d_totalVolume := d_totalVolume existing1 + amt,
                                             d_trades := d_trades existing1 + 1\<rparr>
                   in Inr (mapSet dailyData day existing2, totalVol + amt, totalTr + 1)))
        else Inr st)"

fun forEachEvent ::
  "(int \<times> DailyData) list \<times> rat \<times> int \<Rightarrow> MarketEvent list \<Rightarrow> thrown + (int \<times> DailyData) list \<times> rat \<times> int" where
  "forEachEvent st [] = Inr st"
| "forEachEvent st (event # events) =
     (case addEvent st event of Inl e \<Rightarrow> Inl e | Inr st' \<Rightarrow> forEachEvent st' events)"

text \<open>The \<^verbatim>\<open>map\<close> that builds the price history, with the two running totals it updates.\<close>

fun runningPrices :: "rat \<Rightarrow> rat \<Rightarrow> (int \<times> DailyData) list \<Rightarrow> PriceHistoryData list" where
  "runningPrices runningOptionAVolume runningOptionBVolume [] = []"
| "runningPrices runningOptionAVolume runningOptionBVolume ((day, data) # rest) =
     (let runningA = runningOptionAVolume + d_optionAVolume data;
          runningB = runningOptionBVolume + d_optionBVolume data;
          totalVol = runningA + runningB;
          a = (if totalVol > 0 then runningA / totalVol else 1 / 2);
          b = (if totalVol > 0 then runningB / totalVol else 1 / 2)
      in \<lparr>date = day, timestamp = d_timestamp data, volume = d_totalVolume data,
           trades = d_trades data, optionA = round3 a, optionB = round3 b\<rparr>
         # runningPrices runningA runningB rest)"

definition sortedDays :: "(int \<times> DailyData) list \<Rightarrow> (int \<times> DailyData) list" where
  "sortedDays dailyData = sort_key (\<lambda>kv. d_timestamp (snd kv)) dailyData"

definition volumesOf :: "(int \<times> DailyData) list \<Rightarrow> VolumeHistoryData list" where
  "volumesOf days =
     map (\<lambda>kv. \<lparr>date = fst kv, timestamp = d_timestamp (snd kv),
                 volume = d_totalVolume (snd kv), trades = d_trades (snd kv)\<rparr>) days"

definition calculatePriceChange :: "PriceHistoryData list \<Rightarrow> rat" where
  "calculatePriceChange ph =
     (if length ph < 2 then 0
      else (let latest = ph ! (length ph - 1); previous = ph ! (length ph - 2)
            in optionA latest - optionA previous))"

definition calculateVolumeChange :: "VolumeHistoryData list \<Rightarrow> rat" where
  "calculateVolumeChange vh =
     (if length vh < 2 then 0
      else (let latest = vh ! (length vh - 1); previous = vh ! (length vh - 2)
            in if volume previous = 0 then (if volume latest > 0 then 1 else 0)
               else (volume latest - volume previous) / volume previous))"

text \<open>
  \<^verbatim>\<open>generateFallbackAnalytics\<close>. \<open>rnd k\<close> is the \<open>k\<close>-th value that \<^verbatim>\<open>Math.random()\<close>
  returns, \<open>now\<close> the clock; the loop runs \<open>i\<close> from 7 down to 0 (a day is 86400000 ms).
\<close>

function fallbackLoop ::
  "(nat \<Rightarrow> rat) \<Rightarrow> int \<Rightarrow> int \<Rightarrow> rat \<times> nat \<times> PriceHistoryData list \<times> VolumeHistoryData list
     \<Rightarrow> rat \<times> nat \<times> PriceHistoryData list \<times> VolumeHistoryData list" where
  "fallbackLoop rnd now i st =
     (if i \<ge> 0
      then (case st of (currentPriceA, k, ph, vh) \<Rightarrow>
              (let t = now - i * 86400000;
                   volatility = (rnd k - 1 / 2) * (1 / 10);
                   currentPriceA' = max (5 / 100) (min (95 / 100) (currentPriceA + volatility));
                   vol = of_int (\<lfloor>rnd (k + 1) * 1000\<rfloor> + 100);
                   tr = \<lfloor>rnd (k + 2) * 50\<rfloor> + 10
               in fallbackLoop rnd now (i - 1)
                    (currentPriceA', k + 3,
                     ph @ [\<lparr>date = t div 86400000, timestamp = t, volume = vol, trades = tr,
                            optionA = round3 currentPriceA',
                            optionB = round3 (1 - currentPriceA')\<rparr>],
                     vh @ [\<lparr>date = t div 86400000, timestamp = t, volume = vol, trades = tr\<rparr>])))
      else st)"
  by pat_completeness auto
termination
  by (relation "measure (\<lambda>(rnd, now, i, st). nat (i + 1))") auto

declare fallbackLoop.simps [simp del]

definition generateFallbackAnalytics :: "(nat \<Rightarrow> rat) \<Rightarrow> int \<Rightarrow> MarketAnalytics" where
  "generateFallbackAnalytics rnd now =
     (case fallbackLoop rnd now 7 (1 / 2, 0, [], []) of
        (currentPriceA, k, ph, vh) \<Rightarrow>
          \<lparr>priceHistory = ph,
           volumeHistory = vh,
           totalVolume = foldl (\<lambda>sum p. sum + volume p) 0 ph,
           totalTrades = foldl (\<lambda>sum p. sum + trades p) 0 ph,
           priceChange24h = (rnd k - 1 / 2) * (2 / 10),
           volumeChange24h = (rnd (k + 1) - 1 / 2) * 2,
           lastUpdated = now\<rparr>)"

text \<open>The aggregation of \<^verbatim>\<open>calculateMarketAnalytics\<close> over a non-empty list of events.\<close>

definition aggregateEvents :: "int \<Rightarrow> MarketEvent list \<Rightarrow> thrown + MarketAnalytics" where
  "aggregateEvents now events =
     (case forEachEvent ([], 0, 0) events of
        Inl e \<Rightarrow> Inl e
      | Inr (dailyData, totalVol, totalTr) \<Rightarrow>
          (let ph = runningPrices 0 0 (sortedDays dailyData);
               vh = volumesOf (sortedDays dailyData)
           in Inr \<lparr>priceHistory = ph,
                   volumeHistory = vh,
                   totalVolume = totalVol,
                   totalTrades = totalTr,
                   priceChange24h = calculatePriceChange ph,
                   volumeChange24h = calculateVolumeChange vh,
                   lastUpdated = now\<rparr>))"

definition calculateMarketAnalytics ::
  "logChain \<Rightarrow> (nat \<Rightarrow> rat) \<Rightarrow> int \<Rightarrow> string \<Rightarrow> thrown + MarketAnalytics" where
  "calculateMarketAnalytics c rnd now mid =
     (let events = getMarketEvents c mid
      in if length events = 0 then Inr (generateFallbackAnalytics rnd now)
         else aggregateEvents now events)"

text \<open>
  The handlers of \<^verbatim>\<open>/api/market/analytics\<close>. The cache maps a key to the data and the
  time they were stored; \<open>None\<close> is a query parameter that is absent. The clock is read
  once for a request: \<open>now\<close>.
\<close>

definition CACHE_DURATION :: int where
  "CACHE_DURATION = 5 * 60 * 1000"

definition cutoffTime :: "int \<Rightarrow> string \<Rightarrow> int" where
  "cutoffTime now timeRange =
     (if timeRange = ''24h'' then now - 24 * 60 * 60 * 1000
      else if timeRange = ''7d'' then now - 7 * 24 * 60 * 60 * 1000
      else if timeRange = ''30d'' then now - 30 * 24 * 60 * 60 * 1000
      else 0)"

text \<open>The part of \<^verbatim>\<open>GET\<close> after a cache miss: fresh analytics, cut to the time range and
  stored; a computation that throws is answered with fallback data.\<close>

definition fetchFresh ::
  "logChain \<Rightarrow> (nat \<Rightarrow> rat) \<Rightarrow> int \<Rightarrow> (string \<rightharpoonup> MarketAnalytics \<times> int) \<Rightarrow> string \<Rightarrow> string
     \<Rightarrow> (string \<rightharpoonup> MarketAnalytics \<times> int) \<times> MarketAnalytics response" where
  "fetchFresh c rnd now cache mid timeRange =
     (case calculateMarketAnalytics c rnd now mid of
        Inl e \<Rightarrow> (cache, ok (generateFallbackAnalytics rnd now))
      | Inr analytics \<Rightarrow>
          (let cutoff = cutoffTime now timeRange;
               filteredAnalytics =
                 analytics\<lparr>priceHistory := filter (\<lambda>p. timestamp p \<ge> cutoff) (priceHistory analytics),
                           volumeHistory := filter (\<lambda>v. timestamp v \<ge> cutoff) (volumeHistory analytics)\<rparr>
           in (cache(mid @ ''-'' @ timeRange \<mapsto> (filteredAnalytics, now)), ok filteredAnalytics)))"

definition analyticsGET ::
  "logChain \<Rightarrow> (nat \<Rightarrow> rat) \<Rightarrow> int \<Rightarrow> (string \<rightharpoonup> MarketAnalytics \<times> int) \<Rightarrow> string option \<Rightarrow> string option
     \<Rightarrow> (string \<rightharpoonup> MarketAnalytics \<times> int) \<times> MarketAnalytics response" where
  "analyticsGET c rnd now cache midParam timeRangeParam =
     (let mid = (case midParam of None \<Rightarrow> [] | Some m \<Rightarrow> m);
          timeRange = (case timeRangeParam of None \<Rightarrow> ''7d'' | Some t \<Rightarrow> if t = [] then ''7d'' else t)
      in if mid = [] then (cache, failure 400 ''Market ID is required'')
         else (case cache (mid @ ''-'' @ timeRange) of
                 None \<Rightarrow> fetchFresh c rnd now cache mid timeRange
               | Some (data, stored) \<Rightarrow>
                   if now - stored < CACHE_DURATION then (cache, ok data)
                   else fetchFresh c rnd now cache mid timeRange))"

definition startsWith :: "string \<Rightarrow> string \<Rightarrow> bool" where
  "startsWith key p = (take (length p) key = p)"

text \<open>The \<^verbatim>\<open>POST\<close> handler clears the cache keys that start with the market id.\<close>

definition analyticsPOST ::
  "(string \<rightharpoonup> MarketAnalytics \<times> int) \<Rightarrow> thrown + jsval
     \<Rightarrow> (string \<rightharpoonup> MarketAnalytics \<times> int) \<times> string response" where
  "analyticsPOST cache request =
     (case request of
        Inl e \<Rightarrow> (cache, failure 500 ''Internal server error'')
      | Inr mid \<Rightarrow>
          if \<not> truthy mid then (cache, failure 400 ''Market ID is required'')
          else ((\<lambda>key. if startsWith key (js_String mid) then None else cache key),
                ok ''Cache cleared''))"

section \<open>Event-to-entity mapper\<close>

type_synonym Bytes = "8 word list"

text \<open>The envelope of a decoded event, with its parameters.\<close>

record 'p EthereumEvent =
  transaction_hash :: Bytes
  logIndex :: int
  block_number :: int
  block_timestamp :: int
  params :: 'p

record ClaimedParams =
  cp_marketId :: int
  cp_user :: Bytes
  cp_amount :: int

record AdminLiquidityWithdrawnParams =
  ap_marketId :: int
  ap_creator :: Bytes
  ap_amount :: int

text \<open>The fields every entity has, and the two entities (fields prefixed \<open>ce_\<close>, \<open>ae_\<close>).\<close>

record Entity =
  entity_id :: Bytes
  blockNumber :: int
  blockTimestamp :: int
  transactionHash :: Bytes

record Claimed = Entity +
  ce_marketId :: int
  ce_user :: Bytes
  ce_amount :: int

record AdminLiquidityWithdrawn = Entity +
  ae_marketId :: int
  ae_creator :: Bytes
  ae_amount :: int

text \<open>The store: one table per entity type, keyed by the identifier. \<^verbatim>\<open>entity.save()\<close>
  writes the row under its identifier.\<close>

record store =
  claimedTable :: "Bytes \<rightharpoonup> Claimed"
  adminLiquidityWithdrawnTable :: "Bytes \<rightharpoonup> AdminLiquidityWithdrawn"

datatype abort = Abort string

text \<open>
  \<^verbatim>\<open>logIndex.toI32()\<close> of the indexing library, which is not part of this repository:
  the value when it fits a signed 32-bit integer. A value that does not fit is outside
  what the handlers are specified for; the model stops the handler there.
\<close>

definition toI32 :: "int \<Rightarrow> abort + int" where
  "toI32 n =
     (if - (2 ^ 31) \<le> n \<and> n < 2 ^ 31 then Inr n
      else Inl (Abort ''BigInt value does not fit into i32''))"

text \<open>
  \<^verbatim>\<open>hash.concatI32(i)\<close> appends the bytes of \<open>i\<close> to the hash. The byte encoding of an
  \<^verbatim>\<open>i32\<close> belongs to the indexing library; it is the parameter \<open>fromI32\<close>.
\<close>

definition concatI32 :: "(int \<Rightarrow> Bytes) \<Rightarrow> Bytes \<Rightarrow> int \<Rightarrow> Bytes" where
  "concatI32 fromI32 h i = h @ fromI32 i"

definition handleClaimed ::
  "(int \<Rightarrow> Bytes) \<Rightarrow> ClaimedParams EthereumEvent \<Rightarrow> store \<Rightarrow> abort + store" where
  "handleClaimed fromI32 event st =
     (case toI32 (logIndex event) of
        Inl a \<Rightarrow> Inl a
      | Inr i \<Rightarrow>
          (let entity = \<lparr>entity_id = concatI32 fromI32 (transaction_hash event) i,
                         blockNumber = block_number event,
                         blockTimestamp = block_timestamp event,
                         transactionHash = transaction_hash event,
                         ce_marketId = cp_marketId (params event),
                         ce_user = cp_user (params event),
                         ce_amount = cp_amount (params event)\<rparr>
           in Inr (st\<lparr>claimedTable := (claimedTable st)(entity_id entity \<mapsto> entity)\<rparr>)))"

definition handleAdminLiquidityWithdrawn ::
  "(int \<Rightarrow> Bytes) \<Rightarrow> AdminLiquidityWithdrawnParams EthereumEvent \<Rightarrow> store \<Rightarrow> abort + store" where
  "handleAdminLiquidityWithdrawn fromI32 event st =
     (case toI32 (logIndex event) of
        Inl a \<Rightarrow> Inl a
      | Inr i \<Rightarrow>
          (let entity = \<lparr>entity_id = concatI32 fromI32 (transaction_hash event) i,
                         blockNumber = block_number event,
                         blockTimestamp = block_timestamp event,
                         transactionHash = transaction_hash event,
                         ae_marketId = ap_marketId (params event),
                         ae_creator = ap_creator (params event),
                         ae_amount = ap_amount (params event)\<rparr>
           in Inr (st\<lparr>adminLiquidityWithdrawnTable :=
                        (adminLiquidityWithdrawnTable st)(entity_id entity \<mapsto> entity)\<rparr>)))"

section \<open>Example data\<close>

definition rpcError :: thrown where
  "rpcError = ErrorObj ''HttpRequestError'' ''HTTP request failed.''"

text \<open>A contract none of whose reads resolves.\<close>

definition downChain :: chain where
  "downChain =
     \<lparr>marketCount = Inl rpcError,
      getMarketInfo = (\<lambda>i. Inl rpcError),
      getMarketFinancials = (\<lambda>i. Inl rpcError),
      getFreeMarketInfo = (\<lambda>i. Inl rpcError),
      getLPInfo = (\<lambda>i u. Inl rpcError),
      getLogsTradeExecuted = (\<lambda>i. Inl rpcError),
      getLogsFreeTokensClaimed = (\<lambda>i. Inl rpcError),
      getEligibleWinners = (\<lambda>i ps. Inl rpcError)\<rparr>"

definition addrA :: string where
  "addrA = ''0x52908400098527886E0F7030069857D2E4169EE7''"

definition addrA_lower :: string where
  "addrA_lower = ''0x52908400098527886e0f7030069857d2e4169ee7''"

definition addrB :: string where
  "addrB = ''0xde709f2102306220921060314715629080e2fb77''"

text \<open>A \<^verbatim>\<open>getMarketInfo\<close> tuple created by \<open>addrA\<close>, resolved and disputed as given.\<close>

definition marketTuple :: "bool \<Rightarrow> bool \<Rightarrow> jsval list" where
  "marketTuple res disp =
     [JString ''Will it rain tomorrow?'', JString ''Weather'', JBigInt 1767225600, JNumber 3,
      JBigInt 2, JBool res, JBool disp, JNumber 1, JBool False, JBigInt 0, JString addrA]"

definition freeMarketTuple :: "int \<Rightarrow> int \<Rightarrow> int \<Rightarrow> jsval list" where
  "freeMarketTuple maxP perP curP = [JBigInt maxP, JBigInt perP, JBigInt curP, JBigInt 500, JBool False]"

text \<open>One resolved free market, number 0, with the given free-market tuple.\<close>

definition freeMarketChain :: "jsval list \<Rightarrow> chain" where
  "freeMarketChain fm =
     downChain\<lparr>marketCount := Inr 1,
               getMarketInfo := (\<lambda>i. if i = 0 then Inr (Some (marketTuple True False)) else Inl rpcError),
               getFreeMarketInfo := (\<lambda>i. if i = 0 then Inr (Some fm) else Inl rpcError)\<rparr>"

text \<open>A contract with no market.\<close>

definition emptyChain :: chain where
  "emptyChain = downChain\<lparr>marketCount := Inr 0\<rparr>"

text \<open>The candidate that the scan of that market finds when 40 of 100 participants claimed 5 tokens.\<close>

definition prizePoolCandidate :: AdminWithdrawal where
  "prizePoolCandidate =
     \<lparr>marketId = 0, amount = 300, wtype = PrizePool,
      description = ''Unused prize pool for free market '' @ [CHR 0x22] @ ''Will it rain tomorrow?...'' @ [CHR 0x22]\<rparr>"

subsection \<open>Addresses in the events of a market\<close>

text \<open>Two address strings name the same account when they agree up to letter case.\<close>

definition sameAddress :: "string \<Rightarrow> string \<Rightarrow> bool" where
  "sameAddress a b = (toLowerCase a = toLowerCase b)"

text \<open>A well-formed address string: \<^verbatim>\<open>0x\<close> and forty hexadecimal digits.\<close>

definition isAddress :: "string \<Rightarrow> bool" where
  "isAddress s = (length s = 42 \<and> take 2 s = ''0x'' \<and> list_all (isDigit 16) (drop 2 s))"

text \<open>The addresses that the events carry, in the order the handler reads them: buyer and
  seller of each trade, then the user of each free-token claim.\<close>

definition tradeAddresses :: "TradeExecutedArgs option \<Rightarrow> string list" where
  "tradeAddresses ev =
     (case ev of
        None \<Rightarrow> []
      | Some args \<Rightarrow>
          (case buyer args of None \<Rightarrow> [] | Some x \<Rightarrow> [x]) @
          (case seller args of None \<Rightarrow> [] | Some x \<Rightarrow> [x]))"

definition claimAddresses :: "FreeTokensClaimedArgs option \<Rightarrow> string list" where
  "claimAddresses ev =
     (case ev of None \<Rightarrow> [] | Some args \<Rightarrow> (case user args of None \<Rightarrow> [] | Some x \<Rightarrow> [x]))"

definition eventAddresses ::
  "TradeExecutedArgs option list \<Rightarrow> FreeTokensClaimedArgs option list \<Rightarrow> string list" where
  "eventAddresses tradeEvents freeTokenEvents =
     concat (map tradeAddresses tradeEvents) @ concat (map claimAddresses freeTokenEvents)"

text \<open>The guard of the handler: \<^verbatim>\<open>a && a !== "0x0000000000000000000000000000000000000000"\<close>\<close>

definition counted :: "string \<Rightarrow> bool" where
  "counted x = (x \<noteq> [] \<and> x \<noteq> zeroAddress)"


text \<open>Market 7 with one trade between \<open>addrA\<close> and \<open>addrB\<close>, a free-token claim by
  \<open>addrA\<close> written in lower case, and a contract that finds \<open>addrA\<close> eligible for one token.\<close>

definition oneTrade :: "TradeExecutedArgs option list" where
  "oneTrade = [Some \<lparr>buyer = Some addrA, seller = Some addrB\<rparr>]"

definition oneClaim :: "FreeTokensClaimedArgs option list" where
  "oneClaim = [Some \<lparr>user = Some addrA_lower\<rparr>]"

definition tradeChain :: "bool \<Rightarrow> bool \<Rightarrow> TradeExecutedArgs option list \<Rightarrow> FreeTokensClaimedArgs option list \<Rightarrow> chain" where
  "tradeChain res disp tes fes =
     downChain\<lparr>marketCount := Inr 8,
               getMarketInfo := (\<lambda>i. if i = 7 then Inr (Some (marketTuple res disp)) else Inl rpcError),
               getLogsTradeExecuted := (\<lambda>i. if i = 7 then Inr tes else Inr []),
               getLogsFreeTokensClaimed := (\<lambda>i. if i = 7 then Inr fes else Inr []),
               getEligibleWinners :=
                 (\<lambda>i ps. if i = 7 \<and> ps = [addrA_lower, addrB]
                         then Inr ([addrA], [1000000000000000000]) else Inr ([], []))\<rparr>"

text \<open>The payload of a scan that found nothing.\<close>

definition emptyScan :: scanPayload where
  "emptyScan =
     \<lparr>withdrawals = \<lparr>adminLiquidity = [], prizePool = [], lpRewards = []\<rparr>,
      totals = \<lparr>adminLiquidity = ''0'', prizePool = ''0'', lpRewards = ''0'', total = ''0''\<rparr>,
      totalCount = 0\<rparr>"

text \<open>A log source none of whose reads resolves, and a random source that is constantly 0.\<close>

definition downLogs :: logChain where
  "downLogs = \<lparr>getLogsSharesPurchased = (\<lambda>i. Inl rpcError), getBlockTimestamp = (\<lambda>b. Inl rpcError)\<rparr>"

definition noRandom :: "nat \<Rightarrow> rat" where
  "noRandom k = 0"

subsection \<open>Predicates on the analytics data\<close>

text \<open>A bucket whose two prices are in \<open>[0, 1]\<close> and add up to 1 within 0.001.\<close>

definition inBounds :: "PriceHistoryData \<Rightarrow> bool" where
  "inBounds p =
     (0 \<le> optionA p \<and> optionA p \<le> 1 \<and> 0 \<le> optionB p \<and> optionB p \<le> 1 \<and>
      \<bar>optionA p + optionB p - 1\<bar> \<le> 1 / 1000)"

text \<open>Three purchases on two days: 3 on A and 1 on B, then 6 on B; and their analytics.\<close>

definition purchase :: "int \<Rightarrow> bool \<Rightarrow> rat \<Rightarrow> MarketEvent" where
  "purchase t a v =
     \<lparr>ev_blockNumber = 1, ev_transactionHash = ''0x01'', ev_timestamp = t,
      ev_eventType = SharesPurchased, ev_isOptionA = Some a, ev_amount = Some v,
      ev_buyer = Some addrA\<rparr>"

definition twoDays :: "MarketEvent list" where
  "twoDays = [purchase 1767225600000 True 3, purchase 1767229200000 False 1,
              purchase 1767312000000 False 6]"


definition twoDaysAnalytics :: MarketAnalytics where
  "twoDaysAnalytics =
     \<lparr>priceHistory =
        [\<lparr>date = 20454, timestamp = 1767225600000, volume = 4, trades = 2,
          optionA = 3 / 4, optionB = 1 / 4\<rparr>,
         \<lparr>date = 20455, timestamp = 1767312000000, volume = 6, trades = 1,
          optionA = 3 / 10, optionB = 7 / 10\<rparr>],
      volumeHistory =
        [\<lparr>date = 20454, timestamp = 1767225600000, volume = 4, trades = 2\<rparr>,
         \<lparr>date = 20455, timestamp = 1767312000000, volume = 6, trades = 1\<rparr>],
      totalVolume = 10, totalTrades = 3, priceChange24h = - (9 / 20),
      volumeChange24h = 1 / 2, lastUpdated = 1767400000000\<rparr>"

text \<open>A volume history with the given volumes.\<close>

definition vols :: "rat list \<Rightarrow> VolumeHistoryData list" where
  "vols vs = map (\<lambda>v. \<lparr>date = 20454, timestamp = 1767225600000, volume = v, trades = 1\<rparr>) vs"

subsection \<open>Example events\<close>

text \<open>An event payload the handlers accept: its log index fits an \<^verbatim>\<open>i32\<close>.\<close>

definition fitsI32 :: "int \<Rightarrow> bool" where
  "fitsI32 n = (- (2 ^ 31) \<le> n \<and> n < 2 ^ 31)"

text \<open>An encoding of an \<^verbatim>\<open>i32\<close> in four bytes, least significant first, as an example of
  the parameter \<open>fromI32\<close>; an empty store; a \<^verbatim>\<open>Claimed\<close> and an
  \<^verbatim>\<open>AdminLiquidityWithdrawn\<close> event of one transaction.\<close>

definition leBytes :: "int \<Rightarrow> Bytes" where
  "leBytes i = [word_of_int i, word_of_int (i div 256), word_of_int (i div 65536),
                word_of_int (i div 16777216)]"

definition emptyStore :: store where
  "emptyStore = \<lparr>claimedTable = Map.empty, adminLiquidityWithdrawnTable = Map.empty\<rparr>"

definition claimedEvent :: "ClaimedParams EthereumEvent" where
  "claimedEvent =
     \<lparr>transaction_hash = [0xAB, 0xCD], logIndex = 3, block_number = 100, block_timestamp = 1767225600,
      params = \<lparr>cp_marketId = 7, cp_user = [0x52, 0x90], cp_amount = 1000\<rparr>\<rparr>"

definition withdrawnEvent :: "AdminLiquidityWithdrawnParams EthereumEvent" where
  "withdrawnEvent =
     \<lparr>transaction_hash = [0xAB, 0xCD], logIndex = 4, block_number = 100, block_timestamp = 1767225600,
      params = \<lparr>ap_marketId = 7, ap_creator = [0x52, 0x90], ap_amount = 500\<rparr>\<rparr>"

section \<open>Properties\<close>

subsection \<open>The scanner\<close>

lemma int_toString_0: "int_toString 0 = ''0''"
  by code_simp

lemma adminLiquidityCheck_wtype:
  "w \<in> set (snd (adminLiquidityCheck c m q)) \<Longrightarrow> wtype w = AdminLiquidity"
  by (auto simp: adminLiquidityCheck_def Let_def split: sum.splits option.splits if_splits)

lemma lpRewardsCheck_wtype:
  "w \<in> set (snd (lpRewardsCheck c m u q)) \<Longrightarrow> wtype w = LpRewards"
  by (auto simp: lpRewardsCheck_def Let_def split: sum.splits option.splits if_splits)

lemma getUnusedPrizePool_pos:
  "0 < snd (getUnusedPrizePool c m) \<Longrightarrow>
     \<exists>fm. getFreeMarketInfo c (int m) = Inr (Some fm) \<and> \<not> truthy (tupleAt fm 4)"
  by (auto simp: getUnusedPrizePool_def unusedPrizePoolOf_def Let_def
      split: sum.splits option.splits if_splits)

lemma prizePoolCheck_elem:
  "w \<in> set (snd (prizePoolCheck c m info)) \<Longrightarrow>
     resolved info \<and> snd (checkIfFreeMarket c m) \<and> wtype w = PrizePool \<and>
     amount w = snd (getUnusedPrizePool c m) \<and> 0 < amount w"
  by (auto simp: prizePoolCheck_def Let_def split: prod.splits if_splits)

lemma checkMarket_prizePool:
  assumes "w \<in> set (snd (checkMarket c userAddress m))" and "wtype w = PrizePool"
  shows "\<exists>u mi info. userAddress = JString u \<and> getMarketInfo c (int m) = Inr (Some mi) \<and>
           normalizeMarketInfo mi = Inr info \<and> toLowerCase (creator info) = toLowerCase u \<and>
           w \<in> set (snd (prizePoolCheck c m info))"
  using assms
  by (auto simp: checkMarket_def Let_def case_prod_beta
      split: sum.splits option.splits jsval.splits if_splits
      dest: adminLiquidityCheck_wtype lpRewardsCheck_wtype)

lemma getUnusedPrizePool_value:
  assumes "getFreeMarketInfo c (int m) = Inr (Some fm)"
    and "js_BigInt (nullish (tupleAt fm 0) (JBigInt 0)) = Inr maxP"
    and "js_BigInt (nullish (tupleAt fm 1) (JBigInt 0)) = Inr perP"
    and "js_BigInt (nullish (tupleAt fm 2) (JBigInt 0)) = Inr curP"
    and "js_BigInt (nullish (tupleAt fm 3) (JBigInt 0)) = Inr pool"
    and "\<not> truthy (tupleAt fm 4)"
  shows "snd (getUnusedPrizePool c m) = max 0 (maxP * perP - curP * perP)"
  using assms by (simp add: getUnusedPrizePool_def unusedPrizePoolOf_def Let_def max_def)

text \<open>
  C1 (as amended). When the free-market tuple of a market yields \<open>maxParticipants\<close>,
  \<open>tokensPerParticipant\<close>, \<open>currentParticipants\<close> and a pool not withdrawn, the
  scanner computes \<open>maxParticipants * tokensPerParticipant - currentParticipants * tokensPerParticipant\<close>
  and answers it when it is positive, and 0 otherwise. A prize-pool candidate is among the
  candidates of a market only when the caller is the creator (compared without case), the
  market is resolved, the market is a free market, the computed amount is positive and is
  the candidate's amount, and the pool is not withdrawn.
\<close>

theorem unused_prize_pool_candidate:
  "(getFreeMarketInfo c (int m) = Inr (Some fm) \<and>
    js_BigInt (nullish (tupleAt fm 0) (JBigInt 0)) = Inr maxParticipants \<and>
    js_BigInt (nullish (tupleAt fm 1) (JBigInt 0)) = Inr tokensPerParticipant \<and>
    js_BigInt (nullish (tupleAt fm 2) (JBigInt 0)) = Inr currentParticipants \<and>
    js_BigInt (nullish (tupleAt fm 3) (JBigInt 0)) = Inr totalPrizePool \<and>
    \<not> truthy (tupleAt fm 4)
    \<longrightarrow> snd (getUnusedPrizePool c m) =
          max 0 (maxParticipants * tokensPerParticipant - currentParticipants * tokensPerParticipant))
   \<and>
   (w \<in> set (snd (checkMarket c userAddress m)) \<and> wtype w = PrizePool
    \<longrightarrow> (\<exists>u mi info fm'.
           userAddress = JString u \<and>
           getMarketInfo c (int m) = Inr (Some mi) \<and> normalizeMarketInfo mi = Inr info \<and>
           toLowerCase (creator info) = toLowerCase u \<and>
           resolved info \<and>
           snd (checkIfFreeMarket c m) \<and>
           amount w = snd (getUnusedPrizePool c m) \<and> 0 < amount w \<and>
           getFreeMarketInfo c (int m) = Inr (Some fm') \<and> \<not> truthy (tupleAt fm' 4)))"
proof (intro conjI impI)
  assume "getFreeMarketInfo c (int m) = Inr (Some fm) \<and>
    js_BigInt (nullish (tupleAt fm 0) (JBigInt 0)) = Inr maxParticipants \<and>
    js_BigInt (nullish (tupleAt fm 1) (JBigInt 0)) = Inr tokensPerParticipant \<and>
    js_BigInt (nullish (tupleAt fm 2) (JBigInt 0)) = Inr currentParticipants \<and>
    js_BigInt (nullish (tupleAt fm 3) (JBigInt 0)) = Inr totalPrizePool \<and>
    \<not> truthy (tupleAt fm 4)"
  then show "snd (getUnusedPrizePool c m) =
          max 0 (maxParticipants * tokensPerParticipant - currentParticipants * tokensPerParticipant)"
    using getUnusedPrizePool_value by blast
next
  assume a: "w \<in> set (snd (checkMarket c userAddress m)) \<and> wtype w = PrizePool"
  then obtain u mi info where
    h: "userAddress = JString u" "getMarketInfo c (int m) = Inr (Some mi)"
       "normalizeMarketInfo mi = Inr info" "toLowerCase (creator info) = toLowerCase u"
       "w \<in> set (snd (prizePoolCheck c m info))"
    using checkMarket_prizePool by blast
  from h(5) have p: "resolved info" "snd (checkIfFreeMarket c m)"
    "amount w = snd (getUnusedPrizePool c m)" "0 < amount w"
    using prizePoolCheck_elem by blast+
  from p(3,4) obtain fm' where "getFreeMarketInfo c (int m) = Inr (Some fm')" "\<not> truthy (tupleAt fm' 4)"
    using getUnusedPrizePool_pos by (metis)
  with h p show "\<exists>u mi info fm'.
           userAddress = JString u \<and>
           getMarketInfo c (int m) = Inr (Some mi) \<and> normalizeMarketInfo mi = Inr info \<and>
           toLowerCase (creator info) = toLowerCase u \<and>
           resolved info \<and>
           snd (checkIfFreeMarket c m) \<and>
           amount w = snd (getUnusedPrizePool c m) \<and> 0 < amount w \<and>
           getFreeMarketInfo c (int m) = Inr (Some fm') \<and> \<not> truthy (tupleAt fm' 4)"
    by blast
qed

lemma freeMarketChain_checkMarket:
  "snd (checkMarket (freeMarketChain (freeMarketTuple 100 5 40)) (JString addrA_lower) 0) = [prizePoolCandidate]"
  by code_simp

text \<open>The example of the specification: 100 participants at most, 5 tokens each, 40
  claimed, not withdrawn, on a resolved free market scanned by its creator: 300.\<close>

theorem unused_prize_pool_candidate_witness:
  "snd (checkMarket (freeMarketChain (freeMarketTuple 100 5 40)) (JString addrA_lower) 0) = [prizePoolCandidate] \<and>
   wtype prizePoolCandidate = PrizePool \<and>
   amount prizePoolCandidate = 300 \<and>
   snd (getUnusedPrizePool (freeMarketChain (freeMarketTuple 100 5 40)) 0) = 100 * 5 - 40 * 5 \<and>
   snd (checkIfFreeMarket (freeMarketChain (freeMarketTuple 100 5 40)) 0)"
proof -
  let ?c = "freeMarketChain (freeMarketTuple 100 5 40)"
  have e: "snd (checkMarket ?c (JString addrA_lower) 0) = [prizePoolCandidate]"
    by (rule freeMarketChain_checkMarket)
  have f: "getFreeMarketInfo ?c (int 0) = Inr (Some (freeMarketTuple 100 5 40))"
    by (simp add: freeMarketChain_def)
  have t: "js_BigInt (nullish (tupleAt (freeMarketTuple 100 5 40) 0) (JBigInt 0)) = Inr 100"
    "js_BigInt (nullish (tupleAt (freeMarketTuple 100 5 40) 1) (JBigInt 0)) = Inr 5"
    "js_BigInt (nullish (tupleAt (freeMarketTuple 100 5 40) 2) (JBigInt 0)) = Inr 40"
    "js_BigInt (nullish (tupleAt (freeMarketTuple 100 5 40) 3) (JBigInt 0)) = Inr 500"
    "\<not> truthy (tupleAt (freeMarketTuple 100 5 40) 4)"
    by (simp_all add: freeMarketTuple_def tupleAt_def)
  have w: "wtype prizePoolCandidate = PrizePool" "amount prizePoolCandidate = 300"
    by (simp_all add: prizePoolCandidate_def)
  from unused_prize_pool_candidate [of ?c 0 "freeMarketTuple 100 5 40" 100 5 40 500
      prizePoolCandidate "JString addrA_lower"] e f t w
  show ?thesis by auto
qed

text \<open>C1 as stated fails where more participants claimed than the maximum: the scanner
  answers 0, not the negative difference.\<close>

theorem unused_prize_pool_counterexample:
  "snd (getUnusedPrizePool (freeMarketChain (freeMarketTuple 1 5 2)) 0) = 0 \<and>
   snd (getUnusedPrizePool (freeMarketChain (freeMarketTuple 1 5 2)) 0) \<noteq> 1 * 5 - 2 * 5"
  by (simp add: getUnusedPrizePool_def unusedPrizePoolOf_def freeMarketChain_def
      freeMarketTuple_def tupleAt_def)

text \<open>
  C4. When the contract reports no market, then for every (truthy) user address the scan
  finds nothing and reads nothing but the market count, and the endpoint answers 200 with
  no withdrawal, every total \<open>"0"\<close> and \<open>totalCount = 0\<close>.
\<close>

theorem no_markets_empty_scan:
  "marketCount c = Inr 0 \<and> truthy userAddress \<longrightarrow>
     discoverAdminWithdrawals c userAddress = ([CallMarketCount], []) \<and>
     scanPOST c (Inr userAddress) =
       ([CallMarketCount],
        ok \<lparr>withdrawals = \<lparr>adminLiquidity = [], prizePool = [], lpRewards = []\<rparr>,
            totals = \<lparr>adminLiquidity = ''0'', prizePool = ''0'', lpRewards = ''0'', total = ''0''\<rparr>,
            totalCount = 0\<rparr>)"
  by (simp add: scanPOST_def discoverAdminWithdrawals_def ofType_def sumAmounts_def int_toString_0)

theorem no_markets_empty_scan_witness:
  "marketCount emptyChain = Inr 0 \<and> truthy (JString addrA) \<and>
   scanPOST emptyChain (Inr (JString addrA)) =
       ([CallMarketCount],
        ok \<lparr>withdrawals = \<lparr>adminLiquidity = [], prizePool = [], lpRewards = []\<rparr>,
            totals = \<lparr>adminLiquidity = ''0'', prizePool = ''0'', lpRewards = ''0'', total = ''0''\<rparr>,
            totalCount = 0\<rparr>)"
  using no_markets_empty_scan [of emptyChain "JString addrA"]
  by (simp add: emptyChain_def addrA_def)

subsection \<open>The previewer\<close>

lemma oddPart_odd: "odd n \<Longrightarrow> oddPart n = n"
  by (simp add: oddPart.simps)

lemma oddPart_double: "0 < n \<Longrightarrow> oddPart (2 * n) = oddPart n"
  by (subst oddPart.simps) simp

lemma oddPart_pow2: "odd m \<Longrightarrow> oddPart (2 ^ k * m) = m"
proof (induction k)
  case 0
  then show ?case by (simp add: oddPart_odd)
next
  case (Suc k)
  from Suc.prems have "0 < 2 ^ k * m" by (cases m) auto
  then have "oddPart (2 * (2 ^ k * m)) = oddPart (2 ^ k * m)" by (rule oddPart_double)
  with Suc show ?case by (simp add: mult.assoc)
qed

lemma int_toString_1: "int_toString 1 = ''1''"
  by code_simp

lemma oddPart_unit: "oddPart 1000000000000000000 = 3814697265625"
proof -
  have "(1000000000000000000::nat) = 2 ^ 18 * 3814697265625" by simp
  moreover have "oddPart (2 ^ 18 * 3814697265625) = 3814697265625"
    by (rule oddPart_pow2) simp
  ultimately show ?thesis by simp
qed

lemma formatAmount_unit: "formatAmount 1000000000000000000 = Some ''1''"
  by (simp add: formatAmount_def oddPart_unit int_toString_1)

lemma set_setAdd: "set (setAdd s x) = insert x (set s)"
  by (auto simp: setAdd_def)

lemma distinct_setAdd: "distinct s \<Longrightarrow> distinct (setAdd s x)"
  by (auto simp: setAdd_def)

lemma set_addParticipant:
  "set (addParticipant s a) = set s \<union> toLowerCase ` {x. a = Some x \<and> counted x}"
  by (auto simp: addParticipant_def set_setAdd counted_def split: option.splits)

lemma distinct_addParticipant: "distinct s \<Longrightarrow> distinct (addParticipant s a)"
  by (auto simp: addParticipant_def distinct_setAdd split: option.splits)

lemma set_addTrade:
  "set (addTrade s ev) = set s \<union> toLowerCase ` {x \<in> set (tradeAddresses ev). counted x}"
  by (auto simp: addTrade_def Let_def set_addParticipant tradeAddresses_def split: option.splits)

lemma distinct_addTrade: "distinct s \<Longrightarrow> distinct (addTrade s ev)"
  by (simp add: addTrade_def Let_def distinct_addParticipant)

lemma set_addFreeClaim:
  "set (addFreeClaim s ev) = set s \<union> toLowerCase ` {x \<in> set (claimAddresses ev). counted x}"
  by (auto simp: addFreeClaim_def set_addParticipant claimAddresses_def split: option.splits)

lemma distinct_addFreeClaim: "distinct s \<Longrightarrow> distinct (addFreeClaim s ev)"
  by (simp add: addFreeClaim_def distinct_addParticipant)

lemma set_foldl_addTrade:
  "set (foldl addTrade s evs) =
     set s \<union> toLowerCase ` {x \<in> set (concat (map tradeAddresses evs)). counted x}"
  by (induction evs arbitrary: s) (auto simp: set_addTrade)

lemma distinct_foldl_addTrade: "distinct s \<Longrightarrow> distinct (foldl addTrade s evs)"
  by (induction evs arbitrary: s) (auto simp: distinct_addTrade)

lemma set_foldl_addFreeClaim:
  "set (foldl addFreeClaim s evs) =
     set s \<union> toLowerCase ` {x \<in> set (concat (map claimAddresses evs)). counted x}"
  by (induction evs arbitrary: s) (auto simp: set_addFreeClaim)

lemma distinct_foldl_addFreeClaim: "distinct s \<Longrightarrow> distinct (foldl addFreeClaim s evs)"
  by (induction evs arbitrary: s) (auto simp: distinct_addFreeClaim)

lemma set_participantsOf:
  "set (participantsOf tes fes) = toLowerCase ` {x \<in> set (eventAddresses tes fes). counted x}"
  by (auto simp: participantsOf_def eventAddresses_def set_foldl_addFreeClaim set_foldl_addTrade)

lemma distinct_participantsOf: "distinct (participantsOf tes fes)"
  by (simp add: participantsOf_def distinct_foldl_addFreeClaim distinct_foldl_addTrade)

lemma of_char_lowerChar_zero: "lowerChar c = CHR ''0'' \<Longrightarrow> c = CHR ''0''"
proof -
  assume a: "lowerChar c = CHR ''0''"
  show ?thesis
  proof (cases "(65 \<le> (of_char c :: nat) \<and> (of_char c :: nat) \<le> 90) \<or>
      (192 \<le> (of_char c :: nat) \<and> (of_char c :: nat) \<le> 222 \<and> (of_char c :: nat) \<noteq> 215)")
    case True
    then have "lowerChar c = char_of ((of_char c :: nat) + 32)" by (simp add: lowerChar_def Let_def)
    with a have "(of_char (char_of ((of_char c :: nat) + 32)) :: nat) = of_char (CHR ''0'')" by simp
    with True show ?thesis by (auto simp: of_char_of)
  next
    case False
    with a show ?thesis by (simp add: lowerChar_def Let_def)
  qed
qed


lemma toLowerCase_replicate_zero:
  "toLowerCase s = replicate n (CHR ''0'') \<Longrightarrow> s = replicate n (CHR ''0'')"
proof (induction s arbitrary: n)
  case Nil then show ?case by (simp add: toLowerCase_def)
next
  case (Cons c s)
  then show ?case by (cases n) (auto simp: toLowerCase_def dest: of_char_lowerChar_zero)
qed

lemma zeroAddress_canonical:
  assumes "isAddress x" and "toLowerCase x = zeroAddress"
  shows "x = zeroAddress"
proof -
  from assms(1) have "x = ''0x'' @ drop 2 x"
    by (metis append_take_drop_id isAddress_def)
  moreover have z: "zeroAddress = ''0x'' @ replicate 40 (CHR ''0'')"
    by (simp add: zeroAddress_def eval_nat_numeral)
  moreover from assms(2) have "drop 2 (toLowerCase x) = replicate 40 (CHR ''0'')"
    by (simp add: z)
  then have "toLowerCase (drop 2 x) = replicate 40 (CHR ''0'')"
    by (simp add: toLowerCase_def drop_map)
  then have "drop 2 x = replicate 40 (CHR ''0'')" by (rule toLowerCase_replicate_zero)
  ultimately show ?thesis by simp
qed


lemma previewPOST_parsed:
  assumes "truthy mid" and "js_toString mid = Inr s" and "js_parseInt s = Some n" and "0 \<le> n"
  shows "previewPOST c (Inr mid) = previewMarket c n"
  using assms by (simp add: previewPOST_def)

lemma participantsOf_one_trade:
  assumes "A \<noteq> []" "A \<noteq> zeroAddress" "B \<noteq> []" "B \<noteq> zeroAddress" "\<not> sameAddress A B"
  shows "participantsOf [Some \<lparr>buyer = Some A, seller = Some B\<rparr>] [] = [toLowerCase A, toLowerCase B]"
  using assms
  by (simp add: participantsOf_def addTrade_def addParticipant_def setAdd_def sameAddress_def)

text \<open>
  C2. On a resolved market that is not disputed, with exactly one trade event between two
  different accounts \<open>A\<close> and \<open>B\<close>, neither the zero address, no free-token claim, and a
  contract that answers recipients \<open>[A]\<close> with amounts \<open>[10^18]\<close>, the preview reports
  \<open>totalParticipants = 2\<close>, \<open>eligibleCount = 1\<close> and \<open>amounts = ["1"]\<close>.
\<close>

theorem preview_one_trade:
  "truthy mid \<and> js_toString mid = Inr s \<and> js_parseInt s = Some n \<and> 0 \<le> n \<and>
   getMarketInfo c n = Inr (Some mi) \<and> truthy (tupleAt mi 5) \<and> \<not> truthy (tupleAt mi 6) \<and>
   getLogsTradeExecuted c n = Inr [Some \<lparr>buyer = Some A, seller = Some B\<rparr>] \<and>
   getLogsFreeTokensClaimed c n = Inr [] \<and>
   A \<noteq> [] \<and> A \<noteq> zeroAddress \<and> B \<noteq> [] \<and> B \<noteq> zeroAddress \<and> \<not> sameAddress A B \<and>
   getEligibleWinners c n [toLowerCase A, toLowerCase B] = Inr ([A], [1000000000000000000])
   \<longrightarrow> snd (previewPOST c (Inr mid)) =
         ok \<lparr>recipients = [A], amounts = [Some ''1''], totalParticipants = 2,
             eligibleCount = Some 1, message = None\<rparr>"
proof
  assume h: "truthy mid \<and> js_toString mid = Inr s \<and> js_parseInt s = Some n \<and> 0 \<le> n \<and>
   getMarketInfo c n = Inr (Some mi) \<and> truthy (tupleAt mi 5) \<and> \<not> truthy (tupleAt mi 6) \<and>
   getLogsTradeExecuted c n = Inr [Some \<lparr>buyer = Some A, seller = Some B\<rparr>] \<and>
   getLogsFreeTokensClaimed c n = Inr [] \<and>
   A \<noteq> [] \<and> A \<noteq> zeroAddress \<and> B \<noteq> [] \<and> B \<noteq> zeroAddress \<and> \<not> sameAddress A B \<and>
   getEligibleWinners c n [toLowerCase A, toLowerCase B] = Inr ([A], [1000000000000000000])"
  then have p: "previewPOST c (Inr mid) = previewMarket c n"
    using previewPOST_parsed by blast
  from h have ps: "participantsOf [Some \<lparr>buyer = Some A, seller = Some B\<rparr>] [] = [toLowerCase A, toLowerCase B]"
    using participantsOf_one_trade by blast
  from h show "snd (previewPOST c (Inr mid)) =
         ok \<lparr>recipients = [A], amounts = [Some ''1''], totalParticipants = 2,
             eligibleCount = Some 1, message = None\<rparr>"
    by (simp add: p previewMarket_def ps formatAmount_unit numeral_2_eq_2)
qed

lemma oneTrade_facts:
  "addrA \<noteq> [] \<and> addrA \<noteq> zeroAddress \<and> addrB \<noteq> [] \<and> addrB \<noteq> zeroAddress \<and>
   \<not> sameAddress addrA addrB \<and> toLowerCase addrA = addrA_lower \<and> toLowerCase addrB = addrB"
  by code_simp

theorem preview_one_trade_witness:
  "truthy (JString ''7'') \<and> js_toString (JString ''7'') = Inr ''7'' \<and> js_parseInt ''7'' = Some 7 \<and>
   getLogsTradeExecuted (tradeChain True False oneTrade []) 7 = Inr [Some \<lparr>buyer = Some addrA, seller = Some addrB\<rparr>] \<and>
   \<not> sameAddress addrA addrB \<and>
   snd (previewPOST (tradeChain True False oneTrade []) (Inr (JString ''7''))) =
     ok \<lparr>recipients = [addrA], amounts = [Some ''1''], totalParticipants = 2,
         eligibleCount = Some 1, message = None\<rparr>"
proof -
  have pr: "js_parseInt ''7'' = Some 7"
    by (simp add: js_parseInt_def isWhiteSpace_def parseDigits_def isDigit_def digitValue_def
        digitsValue_def Let_def)
  have mi: "truthy (tupleAt (marketTuple True False) 5)" "\<not> truthy (tupleAt (marketTuple True False) 6)"
    by (simp_all add: marketTuple_def tupleAt_def)
  from preview_one_trade [of "JString ''7''" "''7''" 7 "tradeChain True False oneTrade []"
      "marketTuple True False" addrA addrB] pr mi oneTrade_facts
  show ?thesis by (simp add: tradeChain_def oneTrade_def)
qed


text \<open>
  C3. The preview checks its preconditions in order and answers each with status 200, empty
  recipients and amounts, and a message: a market that is not resolved (whether disputed
  or not), else a disputed market, both after the \<^verbatim>\<open>getMarketInfo\<close> read alone; else a
  market with no trade and no free-token event, after the two log reads and without the
  eligibility read.
\<close>

theorem preview_preconditions:
  "truthy mid \<and> js_toString mid = Inr s \<and> js_parseInt s = Some n \<and> 0 \<le> n \<and>
   getMarketInfo c n = Inr (Some mi)
   \<longrightarrow>
   (\<not> truthy (tupleAt mi 5) \<longrightarrow>
      previewPOST c (Inr mid) =
        ([CallGetMarketInfo n],
         \<lparr>status = 200,
          body = Payload \<lparr>recipients = [], amounts = [], totalParticipants = 0, eligibleCount = Some 0,
                   message = Some ''Market is not resolved yet. Cannot distribute winnings.''\<rparr>\<rparr>)) \<and>
   (truthy (tupleAt mi 5) \<and> truthy (tupleAt mi 6) \<longrightarrow>
      previewPOST c (Inr mid) =
        ([CallGetMarketInfo n],
         \<lparr>status = 200,
          body = Payload \<lparr>recipients = [], amounts = [], totalParticipants = 0, eligibleCount = Some 0,
                   message = Some ''Market is disputed. Cannot distribute winnings.''\<rparr>\<rparr>)) \<and>
   (truthy (tupleAt mi 5) \<and> \<not> truthy (tupleAt mi 6) \<and>
    getLogsTradeExecuted c n = Inr [] \<and> getLogsFreeTokensClaimed c n = Inr [] \<longrightarrow>
      previewPOST c (Inr mid) =
        ([CallGetMarketInfo n, CallGetLogsTradeExecuted n, CallGetLogsFreeTokensClaimed n],
         \<lparr>status = 200,
          body = Payload \<lparr>recipients = [], amounts = [], totalParticipants = 0, eligibleCount = Some 0,
                   message = Some (''No trade or free token events found for this market. '' @
                                   ''This could mean the market has no participants yet.'')\<rparr>\<rparr>))"
proof
  assume h: "truthy mid \<and> js_toString mid = Inr s \<and> js_parseInt s = Some n \<and> 0 \<le> n \<and>
   getMarketInfo c n = Inr (Some mi)"
  then have p: "previewPOST c (Inr mid) = previewMarket c n"
    using previewPOST_parsed by blast
  from h have g: "getMarketInfo c n = Inr (Some mi)" by simp
  show "(\<not> truthy (tupleAt mi 5) \<longrightarrow>
      previewPOST c (Inr mid) =
        ([CallGetMarketInfo n],
         \<lparr>status = 200,
          body = Payload \<lparr>recipients = [], amounts = [], totalParticipants = 0, eligibleCount = Some 0,
                   message = Some ''Market is not resolved yet. Cannot distribute winnings.''\<rparr>\<rparr>)) \<and>
   (truthy (tupleAt mi 5) \<and> truthy (tupleAt mi 6) \<longrightarrow>
      previewPOST c (Inr mid) =
        ([CallGetMarketInfo n],
         \<lparr>status = 200,
          body = Payload \<lparr>recipients = [], amounts = [], totalParticipants = 0, eligibleCount = Some 0,
                   message = Some ''Market is disputed. Cannot distribute winnings.''\<rparr>\<rparr>)) \<and>
   (truthy (tupleAt mi 5) \<and> \<not> truthy (tupleAt mi 6) \<and>
    getLogsTradeExecuted c n = Inr [] \<and> getLogsFreeTokensClaimed c n = Inr [] \<longrightarrow>
      previewPOST c (Inr mid) =
        ([CallGetMarketInfo n, CallGetLogsTradeExecuted n, CallGetLogsFreeTokensClaimed n],
         \<lparr>status = 200,
          body = Payload \<lparr>recipients = [], amounts = [], totalParticipants = 0, eligibleCount = Some 0,
                   message = Some (''No trade or free token events found for this market. '' @
                                   ''This could mean the market has no participants yet.'')\<rparr>\<rparr>))"
    by (simp add: p g previewMarket_def emptyPreview_def ok_def)
qed

lemma parse7: "truthy (JString ''7'') \<and> js_toString (JString ''7'') = Inr ''7'' \<and> js_parseInt ''7'' = Some 7"
  by (simp add: js_parseInt_def isWhiteSpace_def parseDigits_def isDigit_def digitValue_def
        digitsValue_def Let_def)

theorem preview_preconditions_witness:
  "previewPOST (tradeChain False True oneTrade oneClaim) (Inr (JString ''7'')) =
     ([CallGetMarketInfo 7],
      \<lparr>status = 200,
       body = Payload \<lparr>recipients = [], amounts = [], totalParticipants = 0, eligibleCount = Some 0,
                message = Some ''Market is not resolved yet. Cannot distribute winnings.''\<rparr>\<rparr>) \<and>
   previewPOST (tradeChain True True oneTrade oneClaim) (Inr (JString ''7'')) =
     ([CallGetMarketInfo 7],
      \<lparr>status = 200,
       body = Payload \<lparr>recipients = [], amounts = [], totalParticipants = 0, eligibleCount = Some 0,
                message = Some ''Market is disputed. Cannot distribute winnings.''\<rparr>\<rparr>) \<and>
   previewPOST (tradeChain True False [] []) (Inr (JString ''7'')) =
     ([CallGetMarketInfo 7, CallGetLogsTradeExecuted 7, CallGetLogsFreeTokensClaimed 7],
      \<lparr>status = 200,
       body = Payload \<lparr>recipients = [], amounts = [], totalParticipants = 0, eligibleCount = Some 0,
                message = Some (''No trade or free token events found for this market. '' @
                                ''This could mean the market has no participants yet.'')\<rparr>\<rparr>)"
proof -
  have t: "tupleAt (marketTuple r d) 5 = JBool r" "tupleAt (marketTuple r d) 6 = JBool d" for r d
    by (simp_all add: marketTuple_def tupleAt_def)
  from preview_preconditions [of "JString ''7''" "''7''" 7 "tradeChain False True oneTrade oneClaim"
      "marketTuple False True"]
    preview_preconditions [of "JString ''7''" "''7''" 7 "tradeChain True True oneTrade oneClaim"
      "marketTuple True True"]
    preview_preconditions [of "JString ''7''" "''7''" 7 "tradeChain True False [] []"
      "marketTuple True False"]
    parse7 t
  show ?thesis by (simp add: tradeChain_def)
qed

lemma participantsOf_Nil: "participantsOf [] [] = []"
  by (simp add: participantsOf_def)

lemma previewMarket_eligible:
  assumes "getMarketInfo c n = Inr (Some mi)" "truthy (tupleAt mi 5)" "\<not> truthy (tupleAt mi 6)"
    and "getLogsTradeExecuted c n = Inr tes" "getLogsFreeTokensClaimed c n = Inr fes"
    and "participantsOf tes fes \<noteq> []"
    and "getEligibleWinners c n (participantsOf tes fes) = Inr (rs, as)"
  shows "previewMarket c n =
     ([CallGetMarketInfo n, CallGetLogsTradeExecuted n, CallGetLogsFreeTokensClaimed n,
       CallGetEligibleWinners n (participantsOf tes fes)],
      ok \<lparr>recipients = rs, amounts = map formatAmount as,
          totalParticipants = length (participantsOf tes fes),
          eligibleCount = Some (length rs), message = None\<rparr>)"
proof -
  from assms(6) have "\<not> (tes = [] \<and> fes = [])" using participantsOf_Nil by auto
  with assms show ?thesis by (simp add: previewMarket_def Let_def)
qed

lemma zero_not_participant:
  assumes "list_all isAddress (eventAddresses tes fes)"
  shows "zeroAddress \<notin> set (participantsOf tes fes)"
proof
  assume "zeroAddress \<in> set (participantsOf tes fes)"
  then obtain x where x: "x \<in> set (eventAddresses tes fes)" "counted x" "zeroAddress = toLowerCase x"
    by (auto simp: set_participantsOf)
  from assms x(1) have "isAddress x" by (simp add: list_all_iff)
  with x(3) have "x = zeroAddress" using zeroAddress_canonical by simp
  with x(2) show False by (simp add: counted_def)
qed

text \<open>
  C10. The participants are the lower-cased forms of the non-empty, non-zero addresses
  in the events, each once: addresses that differ in letter case only give one
  participant. Their number is \<open>totalParticipants\<close>, and they are the list the
  eligibility read receives. When the event addresses are well formed, the zero address is
  not among them.
\<close>

theorem participants_lowercased:
  "distinct (participantsOf tes fes) \<and>
   set (participantsOf tes fes) =
     toLowerCase ` {x. x \<in> set (eventAddresses tes fes) \<and> x \<noteq> [] \<and> x \<noteq> zeroAddress} \<and>
   length (participantsOf tes fes) =
     card (toLowerCase ` {x. x \<in> set (eventAddresses tes fes) \<and> x \<noteq> [] \<and> x \<noteq> zeroAddress}) \<and>
   (list_all isAddress (eventAddresses tes fes) \<longrightarrow> zeroAddress \<notin> set (participantsOf tes fes)) \<and>
   (getMarketInfo c n = Inr (Some mi) \<and> truthy (tupleAt mi 5) \<and> \<not> truthy (tupleAt mi 6) \<and>
    getLogsTradeExecuted c n = Inr tes \<and> getLogsFreeTokensClaimed c n = Inr fes \<and>
    participantsOf tes fes \<noteq> [] \<and>
    getEligibleWinners c n (participantsOf tes fes) = Inr (rs, as)
    \<longrightarrow> previewMarket c n =
          ([CallGetMarketInfo n, CallGetLogsTradeExecuted n, CallGetLogsFreeTokensClaimed n,
            CallGetEligibleWinners n (participantsOf tes fes)],
           ok \<lparr>recipients = rs, amounts = map formatAmount as,
               totalParticipants = length (participantsOf tes fes),
               eligibleCount = Some (length rs), message = None\<rparr>))"
proof -
  have s: "set (participantsOf tes fes) =
     toLowerCase ` {x. x \<in> set (eventAddresses tes fes) \<and> x \<noteq> [] \<and> x \<noteq> zeroAddress}"
    by (simp add: set_participantsOf counted_def)
  have d: "distinct (participantsOf tes fes)" by (rule distinct_participantsOf)
  from d have "card (set (participantsOf tes fes)) = length (participantsOf tes fes)"
    by (rule distinct_card)
  with s have l: "length (participantsOf tes fes) =
     card (toLowerCase ` {x. x \<in> set (eventAddresses tes fes) \<and> x \<noteq> [] \<and> x \<noteq> zeroAddress})"
    by simp
  have z: "list_all isAddress (eventAddresses tes fes) \<longrightarrow> zeroAddress \<notin> set (participantsOf tes fes)"
    by (intro impI) (rule zero_not_participant)
  have e: "getMarketInfo c n = Inr (Some mi) \<and> truthy (tupleAt mi 5) \<and> \<not> truthy (tupleAt mi 6) \<and>
    getLogsTradeExecuted c n = Inr tes \<and> getLogsFreeTokensClaimed c n = Inr fes \<and>
    participantsOf tes fes \<noteq> [] \<and>
    getEligibleWinners c n (participantsOf tes fes) = Inr (rs, as)
    \<longrightarrow> previewMarket c n =
          ([CallGetMarketInfo n, CallGetLogsTradeExecuted n, CallGetLogsFreeTokensClaimed n,
            CallGetEligibleWinners n (participantsOf tes fes)],
           ok \<lparr>recipients = rs, amounts = map formatAmount as,
               totalParticipants = length (participantsOf tes fes),
               eligibleCount = Some (length rs), message = None\<rparr>)"
    by (intro impI, elim conjE, rule previewMarket_eligible)
  from d s l z e show ?thesis by (intro conjI)
qed

lemma caseVariants_eval:
  "list_all isAddress (eventAddresses oneTrade oneClaim) \<and>
   eventAddresses oneTrade oneClaim = [addrA, addrB, addrA_lower] \<and>
   addrA \<noteq> addrA_lower \<and> sameAddress addrA addrA_lower \<and>
   participantsOf oneTrade oneClaim = [addrA_lower, addrB]"
  by code_simp

theorem participants_lowercased_witness:
  "list_all isAddress (eventAddresses oneTrade oneClaim) \<and>
   eventAddresses oneTrade oneClaim = [addrA, addrB, addrA_lower] \<and>
   addrA \<noteq> addrA_lower \<and> sameAddress addrA addrA_lower \<and>
   participantsOf oneTrade oneClaim = [addrA_lower, addrB] \<and>
   zeroAddress \<notin> set (participantsOf oneTrade oneClaim) \<and>
   previewMarket (tradeChain True False oneTrade oneClaim) 7 =
     ([CallGetMarketInfo 7, CallGetLogsTradeExecuted 7, CallGetLogsFreeTokensClaimed 7,
       CallGetEligibleWinners 7 [addrA_lower, addrB]],
      ok \<lparr>recipients = [addrA], amounts = [Some ''1''], totalParticipants = 2,
          eligibleCount = Some 1, message = None\<rparr>)"
proof -
  let ?c = "tradeChain True False oneTrade oneClaim"
  note th = participants_lowercased [of oneTrade oneClaim ?c 7
      "marketTuple True False" "[addrA]" "[1000000000000000000]"]
  note ev = caseVariants_eval
  from ev have p: "participantsOf oneTrade oneClaim = [addrA_lower, addrB]" by simp
  from th have z: "list_all isAddress (eventAddresses oneTrade oneClaim) \<longrightarrow>
      zeroAddress \<notin> set (participantsOf oneTrade oneClaim)"
    by (elim conjE)
  with ev have z': "zeroAddress \<notin> set (participantsOf oneTrade oneClaim)" by blast
  have g: "getMarketInfo ?c 7 = Inr (Some (marketTuple True False))"
    "truthy (tupleAt (marketTuple True False) 5)" "\<not> truthy (tupleAt (marketTuple True False) 6)"
    "getLogsTradeExecuted ?c 7 = Inr oneTrade" "getLogsFreeTokensClaimed ?c 7 = Inr oneClaim"
    "participantsOf oneTrade oneClaim \<noteq> []"
    "getEligibleWinners ?c 7 (participantsOf oneTrade oneClaim) = Inr ([addrA], [1000000000000000000])"
    by (simp_all add: tradeChain_def marketTuple_def tupleAt_def p)
  from th have "getMarketInfo ?c 7 = Inr (Some (marketTuple True False)) \<and>
    truthy (tupleAt (marketTuple True False) 5) \<and> \<not> truthy (tupleAt (marketTuple True False) 6) \<and>
    getLogsTradeExecuted ?c 7 = Inr oneTrade \<and> getLogsFreeTokensClaimed ?c 7 = Inr oneClaim \<and>
    participantsOf oneTrade oneClaim \<noteq> [] \<and>
    getEligibleWinners ?c 7 (participantsOf oneTrade oneClaim) = Inr ([addrA], [1000000000000000000])
    \<longrightarrow> previewMarket ?c 7 =
          ([CallGetMarketInfo 7, CallGetLogsTradeExecuted 7, CallGetLogsFreeTokensClaimed 7,
            CallGetEligibleWinners 7 (participantsOf oneTrade oneClaim)],
           ok \<lparr>recipients = [addrA], amounts = map formatAmount [1000000000000000000],
               totalParticipants = length (participantsOf oneTrade oneClaim),
               eligibleCount = Some (length [addrA]), message = None\<rparr>)"
    by (elim conjE)
  with g have "previewMarket ?c 7 =
          ([CallGetMarketInfo 7, CallGetLogsTradeExecuted 7, CallGetLogsFreeTokensClaimed 7,
            CallGetEligibleWinners 7 (participantsOf oneTrade oneClaim)],
           ok \<lparr>recipients = [addrA], amounts = map formatAmount [1000000000000000000],
               totalParticipants = length (participantsOf oneTrade oneClaim),
               eligibleCount = Some (length [addrA]), message = None\<rparr>)"
    by blast
  then have m: "previewMarket ?c 7 =
     ([CallGetMarketInfo 7, CallGetLogsTradeExecuted 7, CallGetLogsFreeTokensClaimed 7,
       CallGetEligibleWinners 7 [addrA_lower, addrB]],
      ok \<lparr>recipients = [addrA], amounts = [Some ''1''], totalParticipants = 2,
          eligibleCount = Some 1, message = None\<rparr>)"
    by (simp add: p formatAmount_unit numeral_2_eq_2)
  from ev z' m show ?thesis by blast
qed

subsection \<open>Status codes\<close>

lemma scanPOST_status: "truthy u \<Longrightarrow> status (snd (scanPOST c (Inr u))) = 200"
  by (simp add: scanPOST_def ok_def case_prod_beta Let_def)

lemma scanPOST_marketCount_fails:
  "truthy u \<Longrightarrow> marketCount c = Inl e \<Longrightarrow>
     scanPOST c (Inr u) = ([CallMarketCount], \<lparr>status = 200, body = Payload emptyScan\<rparr>)"
  by (simp add: scanPOST_def discoverAdminWithdrawals_def ofType_def sumAmounts_def
      int_toString_0 ok_def emptyScan_def)

lemma previewMarket_failures:
  "(getMarketInfo c n = Inl e \<longrightarrow> snd (previewMarket c n) = previewFailure e) \<and>
   (getMarketInfo c n = Inr (Some mi) \<and> truthy (tupleAt mi 5) \<and> \<not> truthy (tupleAt mi 6) \<and>
    getLogsTradeExecuted c n = Inl e \<longrightarrow> snd (previewMarket c n) = previewFailure e) \<and>
   (getMarketInfo c n = Inr (Some mi) \<and> truthy (tupleAt mi 5) \<and> \<not> truthy (tupleAt mi 6) \<and>
    getLogsTradeExecuted c n = Inr tes \<and> getLogsFreeTokensClaimed c n = Inl e
    \<longrightarrow> snd (previewMarket c n) = previewFailure e) \<and>
   (getMarketInfo c n = Inr (Some mi) \<and> truthy (tupleAt mi 5) \<and> \<not> truthy (tupleAt mi 6) \<and>
    getLogsTradeExecuted c n = Inr tes \<and> getLogsFreeTokensClaimed c n = Inr fes \<and>
    participantsOf tes fes \<noteq> [] \<and> getEligibleWinners c n (participantsOf tes fes) = Inl e
    \<longrightarrow> snd (previewMarket c n) = previewFailure e)"
proof (intro conjI impI)
  assume "getMarketInfo c n = Inl e"
  then show "snd (previewMarket c n) = previewFailure e" by (simp add: previewMarket_def)
next
  assume "getMarketInfo c n = Inr (Some mi) \<and> truthy (tupleAt mi 5) \<and> \<not> truthy (tupleAt mi 6) \<and>
    getLogsTradeExecuted c n = Inl e"
  then show "snd (previewMarket c n) = previewFailure e" by (simp add: previewMarket_def)
next
  assume "getMarketInfo c n = Inr (Some mi) \<and> truthy (tupleAt mi 5) \<and> \<not> truthy (tupleAt mi 6) \<and>
    getLogsTradeExecuted c n = Inr tes \<and> getLogsFreeTokensClaimed c n = Inl e"
  then show "snd (previewMarket c n) = previewFailure e" by (simp add: previewMarket_def)
next
  assume h: "getMarketInfo c n = Inr (Some mi) \<and> truthy (tupleAt mi 5) \<and> \<not> truthy (tupleAt mi 6) \<and>
    getLogsTradeExecuted c n = Inr tes \<and> getLogsFreeTokensClaimed c n = Inr fes \<and>
    participantsOf tes fes \<noteq> [] \<and> getEligibleWinners c n (participantsOf tes fes) = Inl e"
  then have "\<not> (tes = [] \<and> fes = [])" using participantsOf_Nil by auto
  with h show "snd (previewMarket c n) = previewFailure e" by (auto simp: previewMarket_def Let_def)
qed

lemma analyticsGET_status:
  "(midParam = None \<or> midParam = Some [] \<longrightarrow>
      analyticsGET lc rnd now cache midParam timeRangeParam =
        (cache, \<lparr>status = 400, body = ErrorBody ''Market ID is required''\<rparr>)) \<and>
   (midParam = Some m \<and> m \<noteq> [] \<longrightarrow>
      status (snd (analyticsGET lc rnd now cache midParam timeRangeParam)) = 200)"
  by (auto simp: analyticsGET_def fetchFresh_def Let_def failure_def ok_def
      split: option.splits sum.splits prod.splits)

text \<open>
  C9 (as amended). Each endpoint answers 400 when its required parameter is missing. The
  scanner and the cache reset answer 500 when the request body cannot be read; the preview
  answers 500, with the message of the error, when the body cannot be read or any of its
  contract reads fails. A contract read that fails during the scan is caught inside the
  scan: for every user address the scanner answers 200, with the empty result when the
  \<^verbatim>\<open>marketCount\<close> read fails; and the analytics query answers 200 whenever a market id is
  given.
\<close>

theorem endpoint_statuses:
  "(\<not> truthy u \<longrightarrow>
      scanPOST c (Inr u) = ([], \<lparr>status = 400, body = ErrorBody ''User address is required''\<rparr>)) \<and>
   (\<not> truthy mid \<longrightarrow>
      previewPOST c (Inr mid) = ([], \<lparr>status = 400, body = ErrorBody ''Market ID is required''\<rparr>)) \<and>
   (\<not> truthy mid \<longrightarrow>
      analyticsPOST cache (Inr mid) = (cache, \<lparr>status = 400, body = ErrorBody ''Market ID is required''\<rparr>)) \<and>
   (midParam = None \<or> midParam = Some [] \<longrightarrow>
      analyticsGET lc rnd now cache midParam timeRangeParam =
        (cache, \<lparr>status = 400, body = ErrorBody ''Market ID is required''\<rparr>)) \<and>
   scanPOST c (Inl e) =
     ([], \<lparr>status = 500, body = ErrorBody (''Failed to auto-discover admin withdrawals: '' @ messageOf e)\<rparr>) \<and>
   analyticsPOST cache (Inl e) = (cache, \<lparr>status = 500, body = ErrorBody ''Internal server error''\<rparr>) \<and>
   previewPOST c (Inl e) = ([], previewFailure e) \<and>
   previewFailure e =
     \<lparr>status = 500, body = ErrorBody (''Failed to auto-preview distribution: '' @ messageOf e)\<rparr> \<and>
   (truthy mid \<and> js_toString mid = Inr s \<and> js_parseInt s = Some n \<and> 0 \<le> n \<longrightarrow>
      (getMarketInfo c n = Inl e \<longrightarrow> snd (previewPOST c (Inr mid)) = previewFailure e) \<and>
      (getMarketInfo c n = Inr (Some mi) \<and> truthy (tupleAt mi 5) \<and> \<not> truthy (tupleAt mi 6) \<and>
       getLogsTradeExecuted c n = Inl e \<longrightarrow> snd (previewPOST c (Inr mid)) = previewFailure e) \<and>
      (getMarketInfo c n = Inr (Some mi) \<and> truthy (tupleAt mi 5) \<and> \<not> truthy (tupleAt mi 6) \<and>
       getLogsTradeExecuted c n = Inr tes \<and> getLogsFreeTokensClaimed c n = Inl e
       \<longrightarrow> snd (previewPOST c (Inr mid)) = previewFailure e) \<and>
      (getMarketInfo c n = Inr (Some mi) \<and> truthy (tupleAt mi 5) \<and> \<not> truthy (tupleAt mi 6) \<and>
       getLogsTradeExecuted c n = Inr tes \<and> getLogsFreeTokensClaimed c n = Inr fes \<and>
       participantsOf tes fes \<noteq> [] \<and> getEligibleWinners c n (participantsOf tes fes) = Inl e
       \<longrightarrow> snd (previewPOST c (Inr mid)) = previewFailure e)) \<and>
   (truthy u \<longrightarrow> status (snd (scanPOST c (Inr u))) = 200) \<and>
   (truthy u \<and> marketCount c = Inl e \<longrightarrow>
      scanPOST c (Inr u) = ([CallMarketCount], \<lparr>status = 200, body = Payload emptyScan\<rparr>)) \<and>
   (midParam = Some m \<and> m \<noteq> [] \<longrightarrow>
      status (snd (analyticsGET lc rnd now cache midParam timeRangeParam)) = 200)"
proof -
  have a1: "\<not> truthy u \<longrightarrow>
      scanPOST c (Inr u) = ([], \<lparr>status = 400, body = ErrorBody ''User address is required''\<rparr>)"
    by (simp add: scanPOST_def failure_def)
  have a2: "\<not> truthy mid \<longrightarrow>
      previewPOST c (Inr mid) = ([], \<lparr>status = 400, body = ErrorBody ''Market ID is required''\<rparr>)"
    by (simp add: previewPOST_def failure_def)
  have a3: "\<not> truthy mid \<longrightarrow>
      analyticsPOST cache (Inr mid) = (cache, \<lparr>status = 400, body = ErrorBody ''Market ID is required''\<rparr>)"
    by (simp add: analyticsPOST_def failure_def)
  have a4: "midParam = None \<or> midParam = Some [] \<longrightarrow>
      analyticsGET lc rnd now cache midParam timeRangeParam =
        (cache, \<lparr>status = 400, body = ErrorBody ''Market ID is required''\<rparr>)"
    using analyticsGET_status by blast
  have b1: "scanPOST c (Inl e) =
     ([], \<lparr>status = 500, body = ErrorBody (''Failed to auto-discover admin withdrawals: '' @ messageOf e)\<rparr>)"
    by (simp add: scanPOST_def failure_def)
  have b2: "analyticsPOST cache (Inl e) = (cache, \<lparr>status = 500, body = ErrorBody ''Internal server error''\<rparr>)"
    by (simp add: analyticsPOST_def failure_def)
  have b3: "previewPOST c (Inl e) = ([], previewFailure e)"
    by (simp add: previewPOST_def)
  have b4: "previewFailure e =
     \<lparr>status = 500, body = ErrorBody (''Failed to auto-preview distribution: '' @ messageOf e)\<rparr>"
    by (simp add: previewFailure_def failure_def)
  have b5: "truthy mid \<and> js_toString mid = Inr s \<and> js_parseInt s = Some n \<and> 0 \<le> n \<longrightarrow>
      (getMarketInfo c n = Inl e \<longrightarrow> snd (previewPOST c (Inr mid)) = previewFailure e) \<and>
      (getMarketInfo c n = Inr (Some mi) \<and> truthy (tupleAt mi 5) \<and> \<not> truthy (tupleAt mi 6) \<and>
       getLogsTradeExecuted c n = Inl e \<longrightarrow> snd (previewPOST c (Inr mid)) = previewFailure e) \<and>
      (getMarketInfo c n = Inr (Some mi) \<and> truthy (tupleAt mi 5) \<and> \<not> truthy (tupleAt mi 6) \<and>
       getLogsTradeExecuted c n = Inr tes \<and> getLogsFreeTokensClaimed c n = Inl e
       \<longrightarrow> snd (previewPOST c (Inr mid)) = previewFailure e) \<and>
      (getMarketInfo c n = Inr (Some mi) \<and> truthy (tupleAt mi 5) \<and> \<not> truthy (tupleAt mi 6) \<and>
       getLogsTradeExecuted c n = Inr tes \<and> getLogsFreeTokensClaimed c n = Inr fes \<and>
       participantsOf tes fes \<noteq> [] \<and> getEligibleWinners c n (participantsOf tes fes) = Inl e
       \<longrightarrow> snd (previewPOST c (Inr mid)) = previewFailure e)"
  proof
    assume "truthy mid \<and> js_toString mid = Inr s \<and> js_parseInt s = Some n \<and> 0 \<le> n"
    then have "previewPOST c (Inr mid) = previewMarket c n" using previewPOST_parsed by blast
    then show "(getMarketInfo c n = Inl e \<longrightarrow> snd (previewPOST c (Inr mid)) = previewFailure e) \<and>
      (getMarketInfo c n = Inr (Some mi) \<and> truthy (tupleAt mi 5) \<and> \<not> truthy (tupleAt mi 6) \<and>
       getLogsTradeExecuted c n = Inl e \<longrightarrow> snd (previewPOST c (Inr mid)) = previewFailure e) \<and>
      (getMarketInfo c n = Inr (Some mi) \<and> truthy (tupleAt mi 5) \<and> \<not> truthy (tupleAt mi 6) \<and>
       getLogsTradeExecuted c n = Inr tes \<and> getLogsFreeTokensClaimed c n = Inl e
       \<longrightarrow> snd (previewPOST c (Inr mid)) = previewFailure e) \<and>
      (getMarketInfo c n = Inr (Some mi) \<and> truthy (tupleAt mi 5) \<and> \<not> truthy (tupleAt mi 6) \<and>
       getLogsTradeExecuted c n = Inr tes \<and> getLogsFreeTokensClaimed c n = Inr fes \<and>
       participantsOf tes fes \<noteq> [] \<and> getEligibleWinners c n (participantsOf tes fes) = Inl e
       \<longrightarrow> snd (previewPOST c (Inr mid)) = previewFailure e)"
      using previewMarket_failures [of c n e mi tes fes] by simp
  qed
  have c1: "truthy u \<longrightarrow> status (snd (scanPOST c (Inr u))) = 200"
    using scanPOST_status by blast
  have c2: "truthy u \<and> marketCount c = Inl e \<longrightarrow>
      scanPOST c (Inr u) = ([CallMarketCount], \<lparr>status = 200, body = Payload emptyScan\<rparr>)"
    using scanPOST_marketCount_fails by blast
  have c3: "midParam = Some m \<and> m \<noteq> [] \<longrightarrow>
      status (snd (analyticsGET lc rnd now cache midParam timeRangeParam)) = 200"
    using analyticsGET_status by blast
  from a1 a2 a3 a4 b1 b2 b3 b4 b5 c1 c2 c3 show ?thesis by (intro conjI)
qed

text \<open>C9 as stated fails: with every contract read failing, the scanner answers 200 and
  the empty result, not 500.\<close>

theorem rpc_failure_counterexample:
  "marketCount downChain = Inl rpcError \<and>
   scanPOST downChain (Inr (JString addrA)) =
     ([CallMarketCount], \<lparr>status = 200, body = Payload emptyScan\<rparr>) \<and>
   status (snd (scanPOST downChain (Inr (JString addrA)))) \<noteq> 500"
  by (simp add: scanPOST_def discoverAdminWithdrawals_def ofType_def sumAmounts_def
      int_toString_0 ok_def emptyScan_def downChain_def addrA_def)


theorem endpoint_statuses_witness:
  "scanPOST downChain (Inr JUndefined) =
     ([], \<lparr>status = 400, body = ErrorBody ''User address is required''\<rparr>) \<and>
   previewPOST downChain (Inr JUndefined) =
     ([], \<lparr>status = 400, body = ErrorBody ''Market ID is required''\<rparr>) \<and>
   analyticsPOST Map.empty (Inr JUndefined) =
     (Map.empty, \<lparr>status = 400, body = ErrorBody ''Market ID is required''\<rparr>) \<and>
   analyticsGET downLogs noRandom 0 Map.empty None None =
     (Map.empty, \<lparr>status = 400, body = ErrorBody ''Market ID is required''\<rparr>) \<and>
   snd (previewPOST downChain (Inr (JString ''7''))) = previewFailure rpcError \<and>
   snd (previewPOST ((tradeChain True False oneTrade oneClaim)\<lparr>getLogsTradeExecuted := (\<lambda>i. Inl rpcError)\<rparr>)
          (Inr (JString ''7''))) = previewFailure rpcError \<and>
   snd (previewPOST ((tradeChain True False oneTrade oneClaim)\<lparr>getLogsFreeTokensClaimed := (\<lambda>i. Inl rpcError)\<rparr>)
          (Inr (JString ''7''))) = previewFailure rpcError \<and>
   snd (previewPOST ((tradeChain True False oneTrade oneClaim)\<lparr>getEligibleWinners := (\<lambda>i ps. Inl rpcError)\<rparr>)
          (Inr (JString ''7''))) = previewFailure rpcError \<and>
   truthy (JString addrA) \<and> marketCount downChain = Inl rpcError \<and>
   scanPOST downChain (Inr (JString addrA)) =
     ([CallMarketCount], \<lparr>status = 200, body = Payload emptyScan\<rparr>) \<and>
   status (snd (analyticsGET downLogs noRandom 0 Map.empty (Some ''7'') None)) = 200"
proof -
  let ?t = "tradeChain True False oneTrade oneClaim"
  have t: "truthy (tupleAt (marketTuple True False) 5)" "\<not> truthy (tupleAt (marketTuple True False) 6)"
    by (simp_all add: marketTuple_def tupleAt_def)
  have p: "participantsOf oneTrade oneClaim \<noteq> []"
    using caseVariants_eval by simp
  have a: "truthy (JString addrA)" by (simp add: addrA_def)
  note w1 = endpoint_statuses [where u = JUndefined and c = downChain and mid = JUndefined
      and cache = Map.empty and midParam = None and lc = downLogs and rnd = noRandom and now = 0
      and timeRangeParam = None and e = rpcError]
  note w2 = endpoint_statuses [where u = "JString addrA" and c = downChain and mid = "JString ''7''"
      and s = "''7''" and n = 7 and e = rpcError
      and cache = Map.empty and midParam = "Some ''7''" and m = "''7''" and lc = downLogs
      and rnd = noRandom and now = 0 and timeRangeParam = None]
  note w3 = endpoint_statuses [where c = "?t\<lparr>getLogsTradeExecuted := (\<lambda>i. Inl rpcError)\<rparr>"
      and mid = "JString ''7''" and s = "''7''" and n = 7 and e = rpcError
      and mi = "marketTuple True False"]
  note w4 = endpoint_statuses [where c = "?t\<lparr>getLogsFreeTokensClaimed := (\<lambda>i. Inl rpcError)\<rparr>"
      and mid = "JString ''7''" and s = "''7''" and n = 7 and e = rpcError
      and mi = "marketTuple True False" and tes = oneTrade]
  note w5 = endpoint_statuses [where c = "?t\<lparr>getEligibleWinners := (\<lambda>i ps. Inl rpcError)\<rparr>"
      and mid = "JString ''7''" and s = "''7''" and n = 7 and e = rpcError
      and mi = "marketTuple True False" and tes = oneTrade and fes = oneClaim]
  from w1 have r1: "scanPOST downChain (Inr JUndefined) =
     ([], \<lparr>status = 400, body = ErrorBody ''User address is required''\<rparr>)"
    "previewPOST downChain (Inr JUndefined) =
     ([], \<lparr>status = 400, body = ErrorBody ''Market ID is required''\<rparr>)"
    "analyticsPOST Map.empty (Inr JUndefined) =
     (Map.empty, \<lparr>status = 400, body = ErrorBody ''Market ID is required''\<rparr>)"
    "analyticsGET downLogs noRandom 0 Map.empty None None =
     (Map.empty, \<lparr>status = 400, body = ErrorBody ''Market ID is required''\<rparr>)"
    by simp_all
  from w2 parse7 a have r2: "snd (previewPOST downChain (Inr (JString ''7''))) = previewFailure rpcError"
    "scanPOST downChain (Inr (JString addrA)) =
     ([CallMarketCount], \<lparr>status = 200, body = Payload emptyScan\<rparr>)"
    "status (snd (analyticsGET downLogs noRandom 0 Map.empty (Some ''7'') None)) = 200"
    "marketCount downChain = Inl rpcError"
    by (simp_all add: downChain_def)
  from w3 parse7 t have r3:
    "snd (previewPOST (?t\<lparr>getLogsTradeExecuted := (\<lambda>i. Inl rpcError)\<rparr>) (Inr (JString ''7''))) = previewFailure rpcError"
    by (simp add: tradeChain_def)
  from w4 parse7 t have r4:
    "snd (previewPOST (?t\<lparr>getLogsFreeTokensClaimed := (\<lambda>i. Inl rpcError)\<rparr>) (Inr (JString ''7''))) = previewFailure rpcError"
    by (simp add: tradeChain_def)
  from w5 parse7 t p have r5:
    "snd (previewPOST (?t\<lparr>getEligibleWinners := (\<lambda>i ps. Inl rpcError)\<rparr>) (Inr (JString ''7''))) = previewFailure rpcError"
    by (simp add: tradeChain_def)
  from r1 r2 r3 r4 r5 a show ?thesis by (intro conjI)
qed

subsection \<open>The analytics aggregator\<close>

lemma round3_bounds:
  assumes "0 \<le> x" and "x \<le> 1"
  shows "0 \<le> round3 x \<and> round3 x \<le> 1"
proof -
  have "0 \<le> \<lfloor>x * 1000 + 1 / 2\<rfloor>" using assms(1) by simp
  moreover have "\<lfloor>x * 1000 + 1 / 2\<rfloor> \<le> 1000"
  proof -
    have "x * 1000 + 1 / 2 < 1001" using assms(2) by simp
    then have "\<lfloor>x * 1000 + 1 / 2\<rfloor> < 1001" by (simp add: floor_less_iff)
    then show ?thesis by simp
  qed
  ultimately show ?thesis by (simp add: round3_def)
qed

lemma floor_pair:
  fixes x y :: rat
  assumes "x + y = 1001"
  shows "1000 \<le> \<lfloor>x\<rfloor> + \<lfloor>y\<rfloor> \<and> \<lfloor>x\<rfloor> + \<lfloor>y\<rfloor> \<le> 1001"
proof -
  have "of_int \<lfloor>x\<rfloor> \<le> x" "x < of_int \<lfloor>x\<rfloor> + 1" "of_int \<lfloor>y\<rfloor> \<le> y" "y < of_int \<lfloor>y\<rfloor> + 1"
    by linarith+
  with assms have "(of_int \<lfloor>x\<rfloor> + of_int \<lfloor>y\<rfloor> :: rat) \<le> 1001" "(999 :: rat) < of_int \<lfloor>x\<rfloor> + of_int \<lfloor>y\<rfloor>"
    by linarith+
  then have "(of_int (\<lfloor>x\<rfloor> + \<lfloor>y\<rfloor>) :: rat) \<le> of_int 1001" "(of_int 999 :: rat) < of_int (\<lfloor>x\<rfloor> + \<lfloor>y\<rfloor>)"
    by simp_all
  then have "\<lfloor>x\<rfloor> + \<lfloor>y\<rfloor> \<le> 1001" "999 < \<lfloor>x\<rfloor> + \<lfloor>y\<rfloor>"
    by (simp_all only: of_int_le_iff of_int_less_iff)
  then show ?thesis by simp
qed

lemma round3_sum:
  assumes "a + b = 1"
  shows "\<bar>round3 a + round3 b - 1\<bar> \<le> 1 / 1000"
proof -
  have "(a * 1000 + 1 / 2) + (b * 1000 + 1 / 2) = 1001"
  proof -
    have "(a * 1000 + 1 / 2) + (b * 1000 + 1 / 2) = (a + b) * 1000 + 1" by (simp add: algebra_simps)
    with assms show ?thesis by simp
  qed
  then have f: "1000 \<le> \<lfloor>a * 1000 + 1 / 2\<rfloor> + \<lfloor>b * 1000 + 1 / 2\<rfloor> \<and>
      \<lfloor>a * 1000 + 1 / 2\<rfloor> + \<lfloor>b * 1000 + 1 / 2\<rfloor> \<le> 1001"
    by (rule floor_pair)
  have "round3 a + round3 b - 1 =
      (of_int (\<lfloor>a * 1000 + 1 / 2\<rfloor> + \<lfloor>b * 1000 + 1 / 2\<rfloor>) - 1000) / 1000"
    by (simp add: round3_def field_simps)
  moreover from f have "(0::rat) \<le> of_int (\<lfloor>a * 1000 + 1 / 2\<rfloor> + \<lfloor>b * 1000 + 1 / 2\<rfloor>) - 1000"
    "of_int (\<lfloor>a * 1000 + 1 / 2\<rfloor> + \<lfloor>b * 1000 + 1 / 2\<rfloor>) - 1000 \<le> (1::rat)"
    by linarith+
  ultimately show ?thesis by (simp add: field_simps)
qed

lemma twoDays_eval:
  "aggregateEvents 1767400000000 twoDays = Inr twoDaysAnalytics"
  by code_simp

lemma inBounds_fallback:
  assumes "5 / 100 \<le> p" "p \<le> 95 / 100"
  shows "inBounds \<lparr>date = d, timestamp = t, volume = v, trades = n,
                   optionA = round3 p, optionB = round3 (1 - p)\<rparr>"
proof -
  from assms have "0 \<le> p" "p \<le> 1" "0 \<le> 1 - p" "1 - p \<le> 1" by simp_all
  then have "0 \<le> round3 p \<and> round3 p \<le> 1" "0 \<le> round3 (1 - p) \<and> round3 (1 - p) \<le> 1"
    by (simp_all add: round3_bounds)
  moreover have "\<bar>round3 p + round3 (1 - p) - 1\<bar> \<le> 1 / 1000"
    by (intro round3_sum) simp
  ultimately show ?thesis by (simp add: inBounds_def)
qed

lemma fallbackLoop_props:
  "nat (i + 1) = n \<Longrightarrow> list_all inBounds ph \<Longrightarrow>
     (case fallbackLoop rnd now i (p, k, ph, vh) of
        (p', k', ph', vh') \<Rightarrow>
          length ph' = length ph + n \<and> length vh' = length vh + n \<and> list_all inBounds ph')"
proof (induction n arbitrary: i p k ph vh)
  case 0
  then have "\<not> i \<ge> 0" by simp
  with 0 show ?case by (simp add: fallbackLoop.simps)
next
  case (Suc n)
  then have i: "i \<ge> 0" by simp
  define p' where "p' = max (5 / 100) (min (95 / 100) (p + (rnd k - 1 / 2) * (1 / 10)))"
  define t where "t = now - i * 86400000"
  define vol :: rat where "vol = of_int (\<lfloor>rnd (k + 1) * 1000\<rfloor> + 100)"
  define tr where "tr = \<lfloor>rnd (k + 2) * 50\<rfloor> + 10"
  define ph1 where "ph1 = ph @ [\<lparr>date = t div 86400000, timestamp = t, volume = vol, trades = tr,
                            optionA = round3 p', optionB = round3 (1 - p')\<rparr>]"
  define vh1 where "vh1 = vh @ [\<lparr>date = t div 86400000, timestamp = t, volume = vol, trades = tr\<rparr>]"
  have step: "fallbackLoop rnd now i (p, k, ph, vh) = fallbackLoop rnd now (i - 1) (p', k + 3, ph1, vh1)"
    using i by (subst fallbackLoop.simps) (simp add: Let_def p'_def t_def vol_def tr_def ph1_def vh1_def)
  have "5 / 100 \<le> p'" "p' \<le> 95 / 100" by (simp_all add: p'_def max_def min_def)
  then have "inBounds \<lparr>date = t div 86400000, timestamp = t, volume = vol, trades = tr,
                            optionA = round3 p', optionB = round3 (1 - p')\<rparr>"
    by (rule inBounds_fallback)
  with Suc.prems(2) have b: "list_all inBounds ph1" by (simp add: ph1_def)
  from Suc.prems(1) have "nat (i - 1 + 1) = n" by simp
  from Suc.IH [OF this b, where p = p' and k = "k + 3" and vh = vh1] show ?case
    by (simp add: step ph1_def vh1_def split: prod.splits)
qed

lemma generateFallbackAnalytics_props:
  "length (priceHistory (generateFallbackAnalytics rnd now)) = 8 \<and>
   length (volumeHistory (generateFallbackAnalytics rnd now)) = 8 \<and>
   list_all inBounds (priceHistory (generateFallbackAnalytics rnd now))"
  using fallbackLoop_props [where i = 7 and n = 8 and ph = "[]" and rnd = rnd and now = now
      and p = "1 / 2" and k = 0 and vh = "[]"]
  by (simp add: generateFallbackAnalytics_def split: prod.splits)

text \<open>
  C6 (as amended). When a market has no events, the aggregator answers the synthetic
  series and no error: eight entries (today and the seven days before) in the price history
  and in the volume history, with prices in \<open>[0, 1]\<close> that add up to 1 within 0.001.
\<close>

theorem fallback_series:
  "getMarketEvents c mid = [] \<longrightarrow>
     calculateMarketAnalytics c rnd now mid = Inr (generateFallbackAnalytics rnd now) \<and>
     length (priceHistory (generateFallbackAnalytics rnd now)) = 8 \<and>
     length (volumeHistory (generateFallbackAnalytics rnd now)) = 8 \<and>
     list_all inBounds (priceHistory (generateFallbackAnalytics rnd now))"
  using generateFallbackAnalytics_props [of rnd now]
  by (simp add: calculateMarketAnalytics_def)

lemma downLogs_events: "getMarketEvents downLogs ''7'' = []"
  by (simp add: getMarketEvents_def downLogs_def split: sum.splits)

theorem fallback_series_witness:
  "getMarketEvents downLogs ''7'' = [] \<and>
   calculateMarketAnalytics downLogs noRandom 0 ''7'' = Inr (generateFallbackAnalytics noRandom 0) \<and>
   length (priceHistory (generateFallbackAnalytics noRandom 0)) = 8 \<and>
   list_all inBounds (priceHistory (generateFallbackAnalytics noRandom 0))"
  using fallback_series [of downLogs "''7''" noRandom 0] downLogs_events by simp

text \<open>C6 as stated fails: the loop runs from 7 down to 0, and the series has 8 entries.\<close>

theorem fallback_series_counterexample:
  "getMarketEvents downLogs ''7'' = [] \<and>
   calculateMarketAnalytics downLogs noRandom 0 ''7'' = Inr (generateFallbackAnalytics noRandom 0) \<and>
   length (priceHistory (generateFallbackAnalytics noRandom 0)) = 8 \<and>
   length (priceHistory (generateFallbackAnalytics noRandom 0)) \<noteq> 7"
  using generateFallbackAnalytics_props [of noRandom 0] downLogs_events
  by (simp add: calculateMarketAnalytics_def)

text \<open>
  C7. With at least two daily buckets the volume change is the relative difference of the
  last two volumes when the earlier one is not 0, is 1 when it is 0 and the last one is
  positive, and is 0 when both are 0; the price change is the difference of the last two
  option-A prices; with fewer than two buckets both are 0. These are the changes that the
  aggregation reports.
\<close>

theorem changes_24h:
  "(2 \<le> length vh \<longrightarrow>
      (volume (vh ! (length vh - 2)) \<noteq> 0 \<longrightarrow>
         calculateVolumeChange vh =
           (volume (last vh) - volume (vh ! (length vh - 2))) / volume (vh ! (length vh - 2))) \<and>
      (volume (vh ! (length vh - 2)) = 0 \<and> 0 < volume (last vh) \<longrightarrow> calculateVolumeChange vh = 1) \<and>
      (volume (vh ! (length vh - 2)) = 0 \<and> volume (last vh) = 0 \<longrightarrow> calculateVolumeChange vh = 0)) \<and>
   (2 \<le> length ph \<longrightarrow>
      calculatePriceChange ph = optionA (last ph) - optionA (ph ! (length ph - 2))) \<and>
   (length vh < 2 \<longrightarrow> calculateVolumeChange vh = 0) \<and>
   (length ph < 2 \<longrightarrow> calculatePriceChange ph = 0) \<and>
   (aggregateEvents now evs = Inr a \<longrightarrow>
      volumeChange24h a = calculateVolumeChange (volumeHistory a) \<and>
      priceChange24h a = calculatePriceChange (priceHistory a))"
proof -
  have lv: "2 \<le> length vh \<Longrightarrow> vh ! (length vh - 1) = last vh"
    by (cases vh rule: rev_cases) auto
  have lp: "2 \<le> length ph \<Longrightarrow> ph ! (length ph - 1) = last ph"
    by (cases ph rule: rev_cases) auto
  have v: "2 \<le> length vh \<longrightarrow>
      (volume (vh ! (length vh - 2)) \<noteq> 0 \<longrightarrow>
         calculateVolumeChange vh =
           (volume (last vh) - volume (vh ! (length vh - 2))) / volume (vh ! (length vh - 2))) \<and>
      (volume (vh ! (length vh - 2)) = 0 \<and> 0 < volume (last vh) \<longrightarrow> calculateVolumeChange vh = 1) \<and>
      (volume (vh ! (length vh - 2)) = 0 \<and> volume (last vh) = 0 \<longrightarrow> calculateVolumeChange vh = 0)"
    using lv by (simp add: calculateVolumeChange_def Let_def)
  have p: "2 \<le> length ph \<longrightarrow>
      calculatePriceChange ph = optionA (last ph) - optionA (ph ! (length ph - 2))"
    using lp by (simp add: calculatePriceChange_def Let_def)
  have s: "length vh < 2 \<longrightarrow> calculateVolumeChange vh = 0" "length ph < 2 \<longrightarrow> calculatePriceChange ph = 0"
    by (simp_all add: calculateVolumeChange_def calculatePriceChange_def)
  have g: "aggregateEvents now evs = Inr a \<longrightarrow>
      volumeChange24h a = calculateVolumeChange (volumeHistory a) \<and>
      priceChange24h a = calculatePriceChange (priceHistory a)"
    by (auto simp: aggregateEvents_def Let_def split: sum.splits prod.splits)
  from v p s g show ?thesis by (intro conjI)
qed

theorem changes_24h_witness:
  "calculateVolumeChange (vols [4, 6]) = (6 - 4) / 4 \<and>
   calculateVolumeChange (vols [0, 5]) = 1 \<and>
   calculateVolumeChange (vols [3, 0, 0]) = 0 \<and>
   calculateVolumeChange (vols [3]) = 0 \<and>
   calculatePriceChange (priceHistory twoDaysAnalytics) = 3 / 10 - 3 / 4 \<and>
   calculatePriceChange [] = 0 \<and>
   aggregateEvents 1767400000000 twoDays = Inr twoDaysAnalytics \<and>
   volumeChange24h twoDaysAnalytics = calculateVolumeChange (volumeHistory twoDaysAnalytics) \<and>
   volumeChange24h twoDaysAnalytics = 1 / 2"
proof -
  note e = twoDays_eval
  note th = changes_24h [of "vols [4, 6]" "priceHistory twoDaysAnalytics" 1767400000000 twoDays
      twoDaysAnalytics]
  have v: "calculateVolumeChange (vols [4, 6]) = (6 - 4) / 4"
    using th [THEN conjunct1] by (simp add: vols_def)
  have p: "calculatePriceChange (priceHistory twoDaysAnalytics) = 3 / 10 - 3 / 4"
    using th [THEN conjunct2, THEN conjunct1] by (simp add: twoDaysAnalytics_def)
  have g: "volumeChange24h twoDaysAnalytics = calculateVolumeChange (volumeHistory twoDaysAnalytics)"
    using th [THEN conjunct2, THEN conjunct2, THEN conjunct2, THEN conjunct2] e by blast
  from changes_24h [of "vols [0, 5]" "[]" 1767400000000 twoDays twoDaysAnalytics]
  have b: "calculateVolumeChange (vols [0, 5]) = 1" "calculatePriceChange [] = 0"
    by (simp_all add: vols_def)
  from changes_24h [of "vols [3, 0, 0]" "[]" 1767400000000 twoDays twoDaysAnalytics]
  have c: "calculateVolumeChange (vols [3, 0, 0]) = 0"
    by (simp add: vols_def)
  from changes_24h [of "vols [3]" "[]" 1767400000000 twoDays twoDaysAnalytics]
  have d: "calculateVolumeChange (vols [3]) = 0"
    by (simp add: vols_def)
  have f: "volumeChange24h twoDaysAnalytics = 1 / 2" by (simp add: twoDaysAnalytics_def)
  from v p g b c d e f show ?thesis by blast
qed

subsection \<open>The mapper\<close>

lemma handleClaimed_fits:
  "fitsI32 (logIndex ev) \<Longrightarrow>
     handleClaimed fromI32 ev st =
       Inr (st\<lparr>claimedTable := (claimedTable st)
              (transaction_hash ev @ fromI32 (logIndex ev) \<mapsto>
                 \<lparr>entity_id = transaction_hash ev @ fromI32 (logIndex ev),
                  blockNumber = block_number ev,
                  blockTimestamp = block_timestamp ev,
                  transactionHash = transaction_hash ev,
                  ce_marketId = cp_marketId (params ev),
                  ce_user = cp_user (params ev),
                  ce_amount = cp_amount (params ev)\<rparr>)\<rparr>)"
  by (simp add: handleClaimed_def toI32_def fitsI32_def concatI32_def Let_def)

lemma handleAdminLiquidityWithdrawn_fits:
  "fitsI32 (logIndex ev) \<Longrightarrow>
     handleAdminLiquidityWithdrawn fromI32 ev st =
       Inr (st\<lparr>adminLiquidityWithdrawnTable := (adminLiquidityWithdrawnTable st)
              (transaction_hash ev @ fromI32 (logIndex ev) \<mapsto>
                 \<lparr>entity_id = transaction_hash ev @ fromI32 (logIndex ev),
                  blockNumber = block_number ev,
                  blockTimestamp = block_timestamp ev,
                  transactionHash = transaction_hash ev,
                  ae_marketId = ap_marketId (params ev),
                  ae_creator = ap_creator (params ev),
                  ae_amount = ap_amount (params ev)\<rparr>)\<rparr>)"
  by (simp add: handleAdminLiquidityWithdrawn_def toI32_def fitsI32_def concatI32_def Let_def)

text \<open>
  C8. For an event whose log index fits an \<^verbatim>\<open>i32\<close>, a handler writes exactly one row, under
  the identifier made of the transaction hash followed by the bytes of the log index (four
  bytes when the library's encoding has four); the row carries every event parameter and
  the block number, block time stamp and transaction hash of the envelope; the other table
  is untouched; and handling the same event again leaves the store as it is.
\<close>

theorem mapper_one_row:
  "fitsI32 (logIndex ev) \<and> fitsI32 (logIndex ev') \<longrightarrow>
     (\<exists>st1 row. handleClaimed fromI32 ev st = Inr st1 \<and>
        claimedTable st1 = (claimedTable st)(transaction_hash ev @ fromI32 (logIndex ev) \<mapsto> row) \<and>
        dom (claimedTable st1) = insert (transaction_hash ev @ fromI32 (logIndex ev)) (dom (claimedTable st)) \<and>
        adminLiquidityWithdrawnTable st1 = adminLiquidityWithdrawnTable st \<and>
        entity_id row = transaction_hash ev @ fromI32 (logIndex ev) \<and>
        ce_marketId row = cp_marketId (params ev) \<and>
        ce_user row = cp_user (params ev) \<and>
        ce_amount row = cp_amount (params ev) \<and>
        blockNumber row = block_number ev \<and>
        blockTimestamp row = block_timestamp ev \<and>
        transactionHash row = transaction_hash ev \<and>
        handleClaimed fromI32 ev st1 = Inr st1) \<and>
     (\<exists>st2 row. handleAdminLiquidityWithdrawn fromI32 ev' st = Inr st2 \<and>
        adminLiquidityWithdrawnTable st2 =
          (adminLiquidityWithdrawnTable st)(transaction_hash ev' @ fromI32 (logIndex ev') \<mapsto> row) \<and>
        dom (adminLiquidityWithdrawnTable st2) =
          insert (transaction_hash ev' @ fromI32 (logIndex ev')) (dom (adminLiquidityWithdrawnTable st)) \<and>
        claimedTable st2 = claimedTable st \<and>
        entity_id row = transaction_hash ev' @ fromI32 (logIndex ev') \<and>
        ae_marketId row = ap_marketId (params ev') \<and>
        ae_creator row = ap_creator (params ev') \<and>
        ae_amount row = ap_amount (params ev') \<and>
        blockNumber row = block_number ev' \<and>
        blockTimestamp row = block_timestamp ev' \<and>
        transactionHash row = transaction_hash ev' \<and>
        handleAdminLiquidityWithdrawn fromI32 ev' st2 = Inr st2) \<and>
     (length (fromI32 (logIndex ev)) = 4 \<longrightarrow>
        length (concatI32 fromI32 (transaction_hash ev) (logIndex ev)) = length (transaction_hash ev) + 4)"
proof
  assume h: "fitsI32 (logIndex ev) \<and> fitsI32 (logIndex ev')"
  define k1 where "k1 = transaction_hash ev @ fromI32 (logIndex ev)"
  define row1 where "row1 =
    \<lparr>entity_id = k1, blockNumber = block_number ev, blockTimestamp = block_timestamp ev,
     transactionHash = transaction_hash ev, ce_marketId = cp_marketId (params ev),
     ce_user = cp_user (params ev), ce_amount = cp_amount (params ev)\<rparr>"
  define st1 where "st1 = st\<lparr>claimedTable := (claimedTable st)(k1 \<mapsto> row1)\<rparr>"
  define k2 where "k2 = transaction_hash ev' @ fromI32 (logIndex ev')"
  define row2 where "row2 =
    \<lparr>entity_id = k2, blockNumber = block_number ev', blockTimestamp = block_timestamp ev',
     transactionHash = transaction_hash ev', ae_marketId = ap_marketId (params ev'),
     ae_creator = ap_creator (params ev'), ae_amount = ap_amount (params ev')\<rparr>"
  define st2 where "st2 = st\<lparr>adminLiquidityWithdrawnTable := (adminLiquidityWithdrawnTable st)(k2 \<mapsto> row2)\<rparr>"
  from h have r1: "handleClaimed fromI32 ev st = Inr st1"
    by (simp add: handleClaimed_fits st1_def row1_def k1_def)
  from h have "handleClaimed fromI32 ev st1 = Inr (st1\<lparr>claimedTable := (claimedTable st1)(k1 \<mapsto> row1)\<rparr>)"
    by (simp add: handleClaimed_fits row1_def k1_def)
  then have i1: "handleClaimed fromI32 ev st1 = Inr st1" by (simp add: st1_def)
  have t1: "claimedTable st1 = (claimedTable st)(k1 \<mapsto> row1)"
    "dom (claimedTable st1) = insert k1 (dom (claimedTable st))"
    "adminLiquidityWithdrawnTable st1 = adminLiquidityWithdrawnTable st"
    by (simp_all add: st1_def)
  have f1: "entity_id row1 = k1" "ce_marketId row1 = cp_marketId (params ev)"
    "ce_user row1 = cp_user (params ev)" "ce_amount row1 = cp_amount (params ev)"
    "blockNumber row1 = block_number ev" "blockTimestamp row1 = block_timestamp ev"
    "transactionHash row1 = transaction_hash ev"
    by (simp_all add: row1_def)
  from r1 t1 f1 i1 have e1: "(\<exists>st1 row. handleClaimed fromI32 ev st = Inr st1 \<and>
        claimedTable st1 = (claimedTable st)(transaction_hash ev @ fromI32 (logIndex ev) \<mapsto> row) \<and>
        dom (claimedTable st1) = insert (transaction_hash ev @ fromI32 (logIndex ev)) (dom (claimedTable st)) \<and>
        adminLiquidityWithdrawnTable st1 = adminLiquidityWithdrawnTable st \<and>
        entity_id row = transaction_hash ev @ fromI32 (logIndex ev) \<and>
        ce_marketId row = cp_marketId (params ev) \<and>
        ce_user row = cp_user (params ev) \<and>
        ce_amount row = cp_amount (params ev) \<and>
        blockNumber row = block_number ev \<and>
        blockTimestamp row = block_timestamp ev \<and>
        transactionHash row = transaction_hash ev \<and>
        handleClaimed fromI32 ev st1 = Inr st1)"
    unfolding k1_def by (intro exI [of _ st1] exI [of _ row1] conjI)
  from h have r2: "handleAdminLiquidityWithdrawn fromI32 ev' st = Inr st2"
    by (simp add: handleAdminLiquidityWithdrawn_fits st2_def row2_def k2_def)
  from h have "handleAdminLiquidityWithdrawn fromI32 ev' st2 =
      Inr (st2\<lparr>adminLiquidityWithdrawnTable := (adminLiquidityWithdrawnTable st2)(k2 \<mapsto> row2)\<rparr>)"
    by (simp add: handleAdminLiquidityWithdrawn_fits row2_def k2_def)
  then have i2: "handleAdminLiquidityWithdrawn fromI32 ev' st2 = Inr st2" by (simp add: st2_def)
  have t2: "adminLiquidityWithdrawnTable st2 = (adminLiquidityWithdrawnTable st)(k2 \<mapsto> row2)"
    "dom (adminLiquidityWithdrawnTable st2) = insert k2 (dom (adminLiquidityWithdrawnTable st))"
    "claimedTable st2 = claimedTable st"
    by (simp_all add: st2_def)
  have f2: "entity_id row2 = k2" "ae_marketId row2 = ap_marketId (params ev')"
    "ae_creator row2 = ap_creator (params ev')" "ae_amount row2 = ap_amount (params ev')"
    "blockNumber row2 = block_number ev'" "blockTimestamp row2 = block_timestamp ev'"
    "transactionHash row2 = transaction_hash ev'"
    by (simp_all add: row2_def)
  from r2 t2 f2 i2 have e2: "(\<exists>st2 row. handleAdminLiquidityWithdrawn fromI32 ev' st = Inr st2 \<and>
        adminLiquidityWithdrawnTable st2 =
          (adminLiquidityWithdrawnTable st)(transaction_hash ev' @ fromI32 (logIndex ev') \<mapsto> row) \<and>
        dom (adminLiquidityWithdrawnTable st2) =
          insert (transaction_hash ev' @ fromI32 (logIndex ev')) (dom (adminLiquidityWithdrawnTable st)) \<and>
        claimedTable st2 = claimedTable st \<and>
        entity_id row = transaction_hash ev' @ fromI32 (logIndex ev') \<and>
        ae_marketId row = ap_marketId (params ev') \<and>
        ae_creator row = ap_creator (params ev') \<and>
        ae_amount row = ap_amount (params ev') \<and>
        blockNumber row = block_number ev' \<and>
        blockTimestamp row = block_timestamp ev' \<and>
        transactionHash row = transaction_hash ev' \<and>
        handleAdminLiquidityWithdrawn fromI32 ev' st2 = Inr st2)"
    unfolding k2_def by (intro exI [of _ st2] exI [of _ row2] conjI)
  have l: "(length (fromI32 (logIndex ev)) = 4 \<longrightarrow>
        length (concatI32 fromI32 (transaction_hash ev) (logIndex ev)) = length (transaction_hash ev) + 4)"
    by (simp add: concatI32_def)
  from e1 e2 l show "(\<exists>st1 row. handleClaimed fromI32 ev st = Inr st1 \<and>
        claimedTable st1 = (claimedTable st)(transaction_hash ev @ fromI32 (logIndex ev) \<mapsto> row) \<and>
        dom (claimedTable st1) = insert (transaction_hash ev @ fromI32 (logIndex ev)) (dom (claimedTable st)) \<and>
        adminLiquidityWithdrawnTable st1 = adminLiquidityWithdrawnTable st \<and>
        entity_id row = transaction_hash ev @ fromI32 (logIndex ev) \<and>
        ce_marketId row = cp_marketId (params ev) \<and>
        ce_user row = cp_user (params ev) \<and>
        ce_amount row = cp_amount (params ev) \<and>
        blockNumber row = block_number ev \<and>
        blockTimestamp row = block_timestamp ev \<and>
        transactionHash row = transaction_hash ev \<and>
        handleClaimed fromI32 ev st1 = Inr st1) \<and>
     (\<exists>st2 row. handleAdminLiquidityWithdrawn fromI32 ev' st = Inr st2 \<and>
        adminLiquidityWithdrawnTable st2 =
          (adminLiquidityWithdrawnTable st)(transaction_hash ev' @ fromI32 (logIndex ev') \<mapsto> row) \<and>
        dom (adminLiquidityWithdrawnTable st2) =
          insert (transaction_hash ev' @ fromI32 (logIndex ev')) (dom (adminLiquidityWithdrawnTable st)) \<and>
        claimedTable st2 = claimedTable st \<and>
        entity_id row = transaction_hash ev' @ fromI32 (logIndex ev') \<and>
        ae_marketId row = ap_marketId (params ev') \<and>
        ae_creator row = ap_creator (params ev') \<and>
        ae_amount row = ap_amount (params ev') \<and>
        blockNumber row = block_number ev' \<and>
        blockTimestamp row = block_timestamp ev' \<and>
        transactionHash row = transaction_hash ev' \<and>
        handleAdminLiquidityWithdrawn fromI32 ev' st2 = Inr st2) \<and>
     (length (fromI32 (logIndex ev)) = 4 \<longrightarrow>
        length (concatI32 fromI32 (transaction_hash ev) (logIndex ev)) = length (transaction_hash ev) + 4)"
    by (intro conjI)
qed

lemma example_events_fit:
  "fitsI32 (logIndex claimedEvent) \<and> fitsI32 (logIndex withdrawnEvent) \<and>
   length (leBytes (logIndex claimedEvent)) = 4"
  by (simp add: fitsI32_def claimedEvent_def withdrawnEvent_def leBytes_def)

theorem mapper_one_row_witness:
  "fitsI32 (logIndex claimedEvent) \<and> fitsI32 (logIndex withdrawnEvent) \<and>
   length (leBytes (logIndex claimedEvent)) = 4 \<and>
   length (concatI32 leBytes (transaction_hash claimedEvent) (logIndex claimedEvent)) = 6 \<and>
   (\<exists>st1. handleClaimed leBytes claimedEvent emptyStore = Inr st1 \<and>
      dom (claimedTable st1) = {[0xAB, 0xCD, 3, 0, 0, 0]} \<and>
      dom (adminLiquidityWithdrawnTable st1) = {} \<and>
      handleClaimed leBytes claimedEvent st1 = Inr st1) \<and>
   (\<exists>st2. handleAdminLiquidityWithdrawn leBytes withdrawnEvent emptyStore = Inr st2 \<and>
      dom (adminLiquidityWithdrawnTable st2) = {[0xAB, 0xCD, 4, 0, 0, 0]} \<and>
      handleAdminLiquidityWithdrawn leBytes withdrawnEvent st2 = Inr st2)"
proof -
  note f = example_events_fit
  note th = mapper_one_row [of claimedEvent withdrawnEvent leBytes emptyStore]
  from f have pre: "fitsI32 (logIndex claimedEvent) \<and> fitsI32 (logIndex withdrawnEvent)" by blast
  from th pre have c: "(\<exists>st1 row. handleClaimed leBytes claimedEvent emptyStore = Inr st1 \<and>
        claimedTable st1 = (claimedTable emptyStore)(transaction_hash claimedEvent @ leBytes (logIndex claimedEvent) \<mapsto> row) \<and>
        dom (claimedTable st1) = insert (transaction_hash claimedEvent @ leBytes (logIndex claimedEvent)) (dom (claimedTable emptyStore)) \<and>
        adminLiquidityWithdrawnTable st1 = adminLiquidityWithdrawnTable emptyStore \<and>
        entity_id row = transaction_hash claimedEvent @ leBytes (logIndex claimedEvent) \<and>
        ce_marketId row = cp_marketId (params claimedEvent) \<and>
        ce_user row = cp_user (params claimedEvent) \<and>
        ce_amount row = cp_amount (params claimedEvent) \<and>
        blockNumber row = block_number claimedEvent \<and>
        blockTimestamp row = block_timestamp claimedEvent \<and>
        transactionHash row = transaction_hash claimedEvent \<and>
        handleClaimed leBytes claimedEvent st1 = Inr st1)"
    by blast
  from th pre have a: "(\<exists>st2 row. handleAdminLiquidityWithdrawn leBytes withdrawnEvent emptyStore = Inr st2 \<and>
        adminLiquidityWithdrawnTable st2 =
          (adminLiquidityWithdrawnTable emptyStore)(transaction_hash withdrawnEvent @ leBytes (logIndex withdrawnEvent) \<mapsto> row) \<and>
        dom (adminLiquidityWithdrawnTable st2) =
          insert (transaction_hash withdrawnEvent @ leBytes (logIndex withdrawnEvent)) (dom (adminLiquidityWithdrawnTable emptyStore)) \<and>
        claimedTable st2 = claimedTable emptyStore \<and>
        entity_id row = transaction_hash withdrawnEvent @ leBytes (logIndex withdrawnEvent) \<and>
        ae_marketId row = ap_marketId (params withdrawnEvent) \<and>
        ae_creator row = ap_creator (params withdrawnEvent) \<and>
        ae_amount row = ap_amount (params withdrawnEvent) \<and>
        blockNumber row = block_number withdrawnEvent \<and>
        blockTimestamp row = block_timestamp withdrawnEvent \<and>
        transactionHash row = transaction_hash withdrawnEvent \<and>
        handleAdminLiquidityWithdrawn leBytes withdrawnEvent st2 = Inr st2)"
    by blast
  from th pre f have l: "length (concatI32 leBytes (transaction_hash claimedEvent) (logIndex claimedEvent)) =
      length (transaction_hash claimedEvent) + 4"
    by blast
  have k: "transaction_hash claimedEvent @ leBytes (logIndex claimedEvent) = [0xAB, 0xCD, 3, 0, 0, 0]"
    "transaction_hash withdrawnEvent @ leBytes (logIndex withdrawnEvent) = [0xAB, 0xCD, 4, 0, 0, 0]"
    "length (transaction_hash claimedEvent) = 2"
    by (simp_all add: claimedEvent_def withdrawnEvent_def leBytes_def)
  from c obtain st1 where s1: "handleClaimed leBytes claimedEvent emptyStore = Inr st1"
    "dom (claimedTable st1) = insert (transaction_hash claimedEvent @ leBytes (logIndex claimedEvent)) (dom (claimedTable emptyStore))"
    "adminLiquidityWithdrawnTable st1 = adminLiquidityWithdrawnTable emptyStore"
    "handleClaimed leBytes claimedEvent st1 = Inr st1"
    by blast
  from a obtain st2 where s2: "handleAdminLiquidityWithdrawn leBytes withdrawnEvent emptyStore = Inr st2"
    "dom (adminLiquidityWithdrawnTable st2) =
       insert (transaction_hash withdrawnEvent @ leBytes (logIndex withdrawnEvent)) (dom (adminLiquidityWithdrawnTable emptyStore))"
    "handleAdminLiquidityWithdrawn leBytes withdrawnEvent st2 = Inr st2"
    by blast
  from s1 k have c': "\<exists>st1. handleClaimed leBytes claimedEvent emptyStore = Inr st1 \<and>
      dom (claimedTable st1) = {[0xAB, 0xCD, 3, 0, 0, 0]} \<and>
      dom (adminLiquidityWithdrawnTable st1) = {} \<and>
      handleClaimed leBytes claimedEvent st1 = Inr st1"
    by (intro exI [of _ st1]) (simp add: emptyStore_def)
  from s2 k have a': "\<exists>st2. handleAdminLiquidityWithdrawn leBytes withdrawnEvent emptyStore = Inr st2 \<and>
      dom (adminLiquidityWithdrawnTable st2) = {[0xAB, 0xCD, 4, 0, 0, 0]} \<and>
      handleAdminLiquidityWithdrawn leBytes withdrawnEvent st2 = Inr st2"
    by (intro exI [of _ st2]) (simp add: emptyStore_def)
  from l k have l': "length (concatI32 leBytes (transaction_hash claimedEvent) (logIndex claimedEvent)) = 6"
    by simp
  from f l' c' a' show ?thesis by blast
qed

end
